theory Spec2Isabelle
  imports Complex_Main "HOL-Library.AList"
begin

section \<open>Numbers\<close>

text \<open>
  Python floats are modelled as exact reals, Python ints as \<open>int\<close>. Python's \<open>round(x)\<close>
  rounds to the nearest integer and resolves a tie to the even neighbour;
  \<open>round(x, n)\<close> does the same at the n-th decimal.
\<close>

definition py_round :: "real \<Rightarrow> int" where
  "py_round x =
     (let f = \<lfloor>x\<rfloor>; d = x - of_int f
      in if d < 1 / 2 then f
         else if 1 / 2 < d then f + 1
         else if even f then f else f + 1)"

definition py_round_nd :: "real \<Rightarrow> nat \<Rightarrow> real" where
  "py_round_nd x n = of_int (py_round (x * 10 ^ n)) / 10 ^ n"

section \<open>elo\_calculator.py\<close>

text \<open>The three fields \<open>EloCalculator.__init__\<close> reads from the sport configuration.\<close>

record elo_config =
  K_BASE :: real
  HOME_ADVANTAGE :: real
  season_regression :: real

definition INITIAL_ELO :: real where
  "INITIAL_ELO = 1500"

text \<open>The NBA entry of \<open>SPORT_CONFIGS\<close>.\<close>

definition nba_elo_config :: elo_config where
  "nba_elo_config = \<lparr>K_BASE = 20, HOME_ADVANTAGE = 75, season_regression = 0.75\<rparr>"

definition k_factor :: "elo_config \<Rightarrow> int \<Rightarrow> real \<Rightarrow> real" where
  "k_factor cfg mov elo_diff =
     K_BASE cfg * ((of_int (\<bar>mov\<bar> + 3)) powr 0.8) / (7.5 + 0.006 * \<bar>elo_diff\<bar>)"

definition calculate_expected :: "real \<Rightarrow> real \<Rightarrow> real" where
  "calculate_expected elo_a elo_b = 1 / (1 + 10 powr ((elo_b - elo_a) / 400))"

definition update_elo :: "elo_config \<Rightarrow> real \<Rightarrow> real \<Rightarrow> int \<Rightarrow> int \<Rightarrow> real \<times> real" where
  "update_elo cfg home_elo away_elo home_score away_score =
     (let expected_home = calculate_expected (home_elo + HOME_ADVANTAGE cfg) away_elo;
          expected_away = calculate_expected away_elo (home_elo + HOME_ADVANTAGE cfg);
          home_won = (if home_score > away_score then 1 else 0);
          mov = home_score - away_score;
          elo_diff = home_elo - away_elo;
          k = k_factor cfg mov elo_diff;
          new_home = home_elo + k * (home_won - expected_home);
          new_away = away_elo + k * ((1 - home_won) - expected_away)
      in (new_home, new_away))"

definition season_reset :: "elo_config \<Rightarrow> real \<Rightarrow> real" where
  "season_reset cfg elo =
     season_regression cfg * elo + (1 - season_regression cfg) * INITIAL_ELO"

text \<open>
  A row of the \<open>games\<close> table. \<open>game_date\<close> is a \<open>datetime\<close>, modelled as the number of
  seconds since a fixed epoch; the two scores are nullable.
\<close>

record game =
  game_id :: nat
  sport :: string
  season :: int
  game_date :: int
  status :: string
  home_team_id :: nat
  away_team_id :: nat
  home_score :: "int option"
  away_score :: "int option"

record team_elo_history =
  eh_team_id :: nat
  eh_game_id :: nat
  eh_game_date :: int
  elo_before :: real
  elo_after :: real

text \<open>
  The state of the loop of \<open>calculate_all_elos\<close>: the \<open>defaultdict\<close> of ratings (a team
  is tracked once it has a key), the season of the previous game and the history
  records collected so far.
\<close>

record elo_state =
  elos :: "nat \<rightharpoonup> real"
  current_season :: "int option"
  history_records :: "team_elo_history list"

definition init_elo_state :: elo_state where
  "init_elo_state = \<lparr>elos = Map.empty, current_season = None, history_records = []\<rparr>"

text \<open>Reading \<open>elos[tid]\<close> of the \<open>defaultdict\<close>: a missing key is created with 1500.\<close>

definition elos_get :: "(nat \<rightharpoonup> real) \<Rightarrow> nat \<Rightarrow> real \<times> (nat \<rightharpoonup> real)" where
  "elos_get m tid =
     (case m tid of Some r \<Rightarrow> (r, m) | None \<Rightarrow> (INITIAL_ELO, m(tid \<mapsto> INITIAL_ELO)))"


text \<open>\<open>for tid in list(elos.keys()): elos[tid] = self.season_reset(elos[tid])\<close>\<close>

definition reset_all :: "elo_config \<Rightarrow> (nat \<rightharpoonup> real) \<Rightarrow> (nat \<rightharpoonup> real)" where
  "reset_all cfg m = (\<lambda>tid. map_option (season_reset cfg) (m tid))"

text \<open>The first statement of the loop body: the season-boundary check.\<close>

definition season_boundary :: "elo_config \<Rightarrow> elo_state \<Rightarrow> game \<Rightarrow> elo_state" where
  "season_boundary cfg st g =
     (case current_season st of
        None \<Rightarrow> st
      | Some s \<Rightarrow> if season g \<noteq> s then st\<lparr>elos := reset_all cfg (elos st)\<rparr> else st)"

text \<open>The rest of the loop body, from \<open>current_season = game.season\<close> on.\<close>

definition process_game :: "elo_config \<Rightarrow> elo_state \<Rightarrow> game \<Rightarrow> elo_state" where
  "process_game cfg st g =
     (let (home_elo_before, m1) = elos_get (elos st) (home_team_id g);
          (away_elo_before, m2) = elos_get m1 (away_team_id g);
          st1 = st\<lparr>elos := m2, current_season := Some (season g)\<rparr>
      in case (home_score g, away_score g) of
           (Some hs, Some as) \<Rightarrow>
             (let (new_home_elo, new_away_elo) =
                    update_elo cfg home_elo_before away_elo_before hs as
              in st1\<lparr>elos := (m2(home_team_id g \<mapsto> new_home_elo))(away_team_id g \<mapsto> new_away_elo),
                     history_records := history_records st1 @
                       [\<lparr>eh_team_id = home_team_id g, eh_game_id = game_id g,
                         eh_game_date = game_date g,
                         elo_before = home_elo_before, elo_after = new_home_elo\<rparr>,
                        \<lparr>eh_team_id = away_team_id g, eh_game_id = game_id g,
                         eh_game_date = game_date g,
                         elo_before = away_elo_before, elo_after = new_away_elo\<rparr>]\<rparr>)
         | _ \<Rightarrow> st1)"

definition elo_step :: "elo_config \<Rightarrow> elo_state \<Rightarrow> game \<Rightarrow> elo_state" where
  "elo_step cfg st g = process_game cfg (season_boundary cfg st g) g"

text \<open>The loop \<open>for game in games\<close>, from a given state.\<close>

fun elo_loop :: "elo_config \<Rightarrow> elo_state \<Rightarrow> game list \<Rightarrow> elo_state" where
  "elo_loop cfg st [] = st"
| "elo_loop cfg st (g # gs) = elo_loop cfg (elo_step cfg st g) gs"

text \<open>
  The query of \<open>calculate_all_elos\<close> and of \<open>compute_all\<close>: the final games of the sport
  in ascending date order (games of one date stay in table order).
\<close>

definition final_games :: "string \<Rightarrow> game list \<Rightarrow> game list" where
  "final_games sp gs =
     sort_key game_date (filter (\<lambda>g. sport g = sp \<and> status g = ''Final'') gs)"


section \<open>prediction\_engine.py\<close>

datatype py_error = IndexError | KeyError

subsection \<open>Scores, spread and total of \<open>predict_game\<close>\<close>

text \<open>
  The arithmetic of \<open>predict_game\<close> between the model outputs and the returned dict.
  Its inputs are the sport's \<open>spread_calibration\<close>, the classifier's home win
  probability and the two regressor outputs.
\<close>

definition total_estimate :: "real \<Rightarrow> real \<Rightarrow> real" where
  "total_estimate raw_home raw_away = max raw_home 0 + max raw_away 0"

definition clamped_prob :: "real \<Rightarrow> real" where
  "clamped_prob home_win_prob = max 0.01 (min 0.99 home_win_prob)"

definition spread_estimate :: "real \<Rightarrow> real \<Rightarrow> real" where
  "spread_estimate spread_calibration home_win_prob =
     spread_calibration * ln (clamped_prob home_win_prob / (1 - clamped_prob home_win_prob))"

definition rounded_scores :: "real \<Rightarrow> real \<Rightarrow> real \<Rightarrow> real \<Rightarrow> int \<times> int" where
  "rounded_scores spread_calibration home_win_prob raw_home raw_away =
     (let predicted_total = total_estimate raw_home raw_away;
          predicted_spread = spread_estimate spread_calibration home_win_prob;
          raw_predicted_home = max ((predicted_total + predicted_spread) / 2) 0;
          raw_predicted_away = max ((predicted_total - predicted_spread) / 2) 0
      in (py_round raw_predicted_home, py_round raw_predicted_away))"

record score_prediction =
  predicted_home_score :: int
  predicted_away_score :: int
  predicted_spread :: real
  predicted_total :: real

definition predict_scores :: "real \<Rightarrow> real \<Rightarrow> real \<Rightarrow> real \<Rightarrow> score_prediction" where
  "predict_scores spread_calibration home_win_prob raw_home raw_away =
     (let (h0, a0) = rounded_scores spread_calibration home_win_prob raw_home raw_away;
          (h, a) = (if home_win_prob \<ge> 0.5
                    then (if h0 \<le> a0 then (a0 + 1, a0) else (h0, a0))
                    else (if a0 \<le> h0 then (h0, h0 + 1) else (h0, a0)))
      in \<lparr>predicted_home_score = h, predicted_away_score = a,
          predicted_spread = of_int (h - a), predicted_total = of_int (h + a)\<rparr>)"

subsection \<open>\<open>_distribute_score\<close>\<close>







section \<open>rolling\_stats\_computer.py\<close>

text \<open>A boxscore is a dict from stat names to counts; \<open>b.get(k, d)\<close> reads it.\<close>

type_synonym box = "(string \<times> int) list"

definition box_get :: "box \<Rightarrow> string \<Rightarrow> int \<Rightarrow> int" where
  "box_get b k d = (case map_of b k of Some v \<Rightarrow> v | None \<Rightarrow> d)"

definition EWMA_DECAY :: real where
  "EWMA_DECAY = 0.95"

text \<open>The loop of \<open>_ewma\<close> over the reversed values: weight, total and weight sum.\<close>

fun ewma_loop :: "real \<Rightarrow> real \<Rightarrow> real \<Rightarrow> real \<Rightarrow> real list \<Rightarrow> real \<times> real" where
  "ewma_loop decay weight tot weight_sum [] = (tot, weight_sum)"
| "ewma_loop decay weight tot weight_sum (v # vs) =
     ewma_loop decay (weight * decay) (tot + weight * v) (weight_sum + weight) vs"

definition ewma :: "real list \<Rightarrow> real" where
  "ewma vals =
     (if vals = [] then 0
      else (let (tot, weight_sum) = ewma_loop EWMA_DECAY 1 0 0 (rev vals)
            in if weight_sum > 0 then tot / weight_sum else 0))"

text \<open>
  The weighted average in the words of the specification: the game \<open>i\<close> places before
  the most recent one has weight \<open>0.95 ^ i\<close>, and the weights are normalised by their sum.
\<close>

definition ewma_spec :: "real list \<Rightarrow> real" where
  "ewma_spec vals =
     (\<Sum>i<length vals. 0.95 ^ i * vals ! (length vals - 1 - i)) / (\<Sum>i<length vals. 0.95 ^ i)"

text \<open>An entry of a team's history, as \<open>compute_all\<close> appends it.\<close>

record history_entry =
  he_game_id :: nat
  he_game_date :: int
  is_home :: bool
  score_for :: int
  score_against :: int
  won :: bool
  boxscore :: box
  margin :: int

text \<open>\<open>history[-n:]\<close>\<close>

definition last_n :: "nat \<Rightarrow> 'a list \<Rightarrow> 'a list" where
  "last_n n xs = drop (length xs - n) xs"

text \<open>The streak loop over the reversed history, with its \<open>break\<close>.\<close>

fun streak_loop :: "int \<Rightarrow> history_entry list \<Rightarrow> int" where
  "streak_loop streak [] = streak"
| "streak_loop streak (g # gs) =
     (if won g
      then (if streak \<ge> 0 then streak_loop (streak + 1) gs else streak)
      else (if streak \<le> 0 then streak_loop (streak - 1) gs else streak))"

subsection \<open>Football statistics\<close>

text \<open>The value appended to \<open>tov_margin_vals\<close> for one boxscore.\<close>

definition tov_margin_value :: "box \<Rightarrow> int" where
  "tov_margin_value b =
     (let turnovers = box_get b ''turnovers'' 0;
          opp_turnovers = box_get b ''opp_turnovers'' 0
      in if opp_turnovers > 0 then opp_turnovers - turnovers else - turnovers)"

definition ypp_value :: "box \<Rightarrow> real" where
  "ypp_value b =
     (let total_yards = box_get b ''total_yards'' 0;
          pass_att = box_get b ''pass_attempts'' 0;
          rush_att = box_get b ''rushing_carries'' 0;
          total_plays = pass_att + rush_att
      in if total_plays > 0 then of_int total_yards / of_int total_plays else 0)"

definition third_down_value :: "box \<Rightarrow> real" where
  "third_down_value b =
     (let conv = box_get b ''third_down_conv'' 0;
          att = box_get b ''third_down_att'' 0
      in if att > 0 then of_int conv / of_int att else 0)"

definition compute_football_stats :: "box list \<Rightarrow> history_entry list \<Rightarrow> (string \<times> real) list" where
  "compute_football_stats boxes last_10 =
     (if boxes = []
      then [(''yards_per_play_10'', 0), (''tov_margin_10'', 0), (''third_down_pct_10'', 0)]
      else [(''yards_per_play_10'', ewma (map ypp_value boxes)),
            (''tov_margin_10'', ewma (map (\<lambda>b. of_int (tov_margin_value b)) boxes)),
            (''third_down_pct_10'', ewma (map third_down_value boxes))])"

text \<open>
  \<open>_compute_sport_specific\<close>. The basketball, hockey and baseball families
  (\<open>_compute_nba_stats\<close>, \<open>_compute_nhl_stats\<close>, \<open>_compute_mlb_stats\<close>,
  \<open>_compute_ncaab_stats\<close>) are the parameter \<open>fam\<close>: nothing below depends on what they
  compute.
\<close>

type_synonym families = "string \<Rightarrow> box list \<Rightarrow> history_entry list \<Rightarrow> (string \<times> real) list"

definition compute_sport_specific ::
    "families \<Rightarrow> history_entry list \<Rightarrow> string \<Rightarrow> (string \<times> real) list" where
  "compute_sport_specific fam last_10 sp =
     (let boxes = map boxscore (filter (\<lambda>g. boxscore g \<noteq> []) last_10)
      in if sp = ''NBA'' \<or> sp = ''NHL'' \<or> sp = ''MLB'' \<or> sp = ''NCAAB'' then fam sp boxes last_10
         else if sp = ''NCAAF'' \<or> sp = ''NFL'' then compute_football_stats boxes last_10
         else [])"

subsection \<open>The statistics of a snapshot\<close>

text \<open>
  The \<open>stats\<close> dict. Its universal keys are written literally in the source and are the
  fields of the record; the sport-specific keys, all different from the universal
  ones, are merged in by \<open>stats.update\<close> and kept in \<open>sport_stats\<close>.
\<close>

record stats =
  win_pct_10 :: real
  win_pct_20 :: real
  ppg_10 :: real
  ppg_20 :: real
  papg_10 :: real
  papg_20 :: real
  margin_avg_10 :: real
  home_win_pct_10 :: real
  away_win_pct_10 :: real
  streak :: int
  elo :: real
  sport_stats :: "(string \<times> real) list"

definition default_sport_stats :: "string \<Rightarrow> (string \<times> real) list" where
  "default_sport_stats sp =
     (if sp = ''NBA'' then
        [(''efg_pct_10'', 0), (''tov_pct_10'', 0), (''ftr_10'', 0), (''oreb_pct_10'', 0),
         (''net_rating_10'', 0), (''ast_tov_ratio_10'', 0), (''pace_10'', 0)]
      else if sp = ''NHL'' then
        [(''shots_per_game_10'', 0), (''save_pct_10'', 0), (''pp_pct_10'', 0),
         (''pk_pct_10'', 0), (''goals_per_game_10'', 0), (''goals_against_10'', 0),
         (''shot_diff_10'', 0)]
      else if sp = ''MLB'' then
        [(''ops_10'', 0), (''era_10'', 0), (''whip_10'', 0), (''k_bb_ratio_10'', 0),
         (''batting_avg_10'', 0), (''slug_pct_10'', 0), (''runs_per_game_10'', 0)]
      else if sp = ''NCAAB'' then
        [(''efg_pct_10'', 0), (''tov_pct_10'', 0), (''ftr_10'', 0), (''oreb_pct_10'', 0)]
      else if sp = ''NCAAF'' \<or> sp = ''NFL'' then
        [(''yards_per_play_10'', 0), (''tov_margin_10'', 0), (''third_down_pct_10'', 0)]
      else [])"

definition default_stats :: "string \<Rightarrow> stats" where
  "default_stats sp =
     \<lparr>win_pct_10 = 0.5, win_pct_20 = 0.5, ppg_10 = 0, ppg_20 = 0, papg_10 = 0, papg_20 = 0,
      margin_avg_10 = 0, home_win_pct_10 = 0.5, away_win_pct_10 = 0.5, streak = 0,
      elo = 1500, sport_stats = default_sport_stats sp\<rparr>"

text \<open>\<open>1.0 if g["won"] else 0.0\<close>\<close>

definition win_value :: "history_entry \<Rightarrow> real" where
  "win_value g = (if won g then 1 else 0)"

text \<open>
  \<open>_compute_stats_from_history\<close>. The dict it builds has no \<open>elo\<close> key (the caller sets
  it), so the field carries the argument; every float value is rounded to six decimals
  at the end, the integer streak is not.
\<close>

definition compute_stats_from_history ::
    "families \<Rightarrow> history_entry list \<Rightarrow> real \<Rightarrow> string \<Rightarrow> bool \<Rightarrow> stats" where
  "compute_stats_from_history fam history elo_arg sp is_home_arg =
     (if history = [] then default_stats sp
      else
        (let last_10 = last_n 10 history;
             last_20 = last_n 20 history;
             home_games_10 = filter is_home last_10;
             away_games_10 = filter (\<lambda>g. \<not> is_home g) last_10;
             home_wins_10 = length (filter won home_games_10);
             away_wins_10 = length (filter won away_games_10)
         in \<lparr>win_pct_10 = py_round_nd (ewma (map win_value last_10)) 6,
             win_pct_20 = py_round_nd (ewma (map win_value last_20)) 6,
             ppg_10 = py_round_nd (ewma (map (\<lambda>g. of_int (score_for g)) last_10)) 6,
             ppg_20 = py_round_nd (ewma (map (\<lambda>g. of_int (score_for g)) last_20)) 6,
             papg_10 = py_round_nd (ewma (map (\<lambda>g. of_int (score_against g)) last_10)) 6,
             papg_20 = py_round_nd (ewma (map (\<lambda>g. of_int (score_against g)) last_20)) 6,
             margin_avg_10 = py_round_nd (ewma (map (\<lambda>g. of_int (margin g)) last_10)) 6,
             home_win_pct_10 =
               py_round_nd (if home_games_10 \<noteq> []
                            then of_nat home_wins_10 / of_nat (length home_games_10)
                            else 0.5) 6,
             away_win_pct_10 =
               py_round_nd (if away_games_10 \<noteq> []
                            then of_nat away_wins_10 / of_nat (length away_games_10)
                            else 0.5) 6,
             streak = streak_loop 0 (rev history),
             elo = elo_arg,
             sport_stats = map (\<lambda>(k, v). (k, py_round_nd v 6))
                             (compute_sport_specific fam last_10 sp)\<rparr>))"

text \<open>
  In the words of the specification: the plain fraction of wins among the games of a
  venue role, 0.5 when there are none.
\<close>

definition win_fraction :: "history_entry list \<Rightarrow> real" where
  "win_fraction gs =
     (if gs = [] then 0.5 else of_nat (length (filter won gs)) / of_nat (length gs))"

subsection \<open>\<open>compute_all\<close>\<close>

text \<open>The entries \<open>compute_all\<close> appends for a game with both scores.\<close>

definition home_entry :: "string \<Rightarrow> box \<Rightarrow> box \<Rightarrow> game \<Rightarrow> int \<Rightarrow> int \<Rightarrow> history_entry" where
  "home_entry sp home_box away_box g hs as =
     \<lparr>he_game_id = game_id g, he_game_date = game_date g, is_home = True,
      score_for = hs, score_against = as, won = (hs > as),
      boxscore = (if sp = ''NFL'' \<or> sp = ''NCAAF''
                  then AList.update ''opp_turnovers'' (box_get away_box ''turnovers'' 0) home_box
                  else home_box),
      margin = hs - as\<rparr>"

definition away_entry :: "string \<Rightarrow> box \<Rightarrow> box \<Rightarrow> game \<Rightarrow> int \<Rightarrow> int \<Rightarrow> history_entry" where
  "away_entry sp home_box away_box g hs as =
     \<lparr>he_game_id = game_id g, he_game_date = game_date g, is_home = False,
      score_for = as, score_against = hs, won = (as > hs),
      boxscore = (if sp = ''NFL'' \<or> sp = ''NCAAF''
                  then AList.update ''opp_turnovers'' (box_get home_box ''turnovers'' 0) away_box
                  else away_box),
      margin = as - hs\<rparr>"

text \<open>
  The boxscore dict keyed by (game, team), with \<open>boxscores.get(key, {})\<close>, and the
  \<open>defaultdict(list)\<close> of team histories.
\<close>

type_synonym boxscores = "nat \<times> nat \<rightharpoonup> box"
type_synonym team_history = "nat \<Rightarrow> history_entry list"

definition boxscores_get :: "boxscores \<Rightarrow> nat \<times> nat \<Rightarrow> box" where
  "boxscores_get bx k = (case bx k of Some b \<Rightarrow> b | None \<Rightarrow> [])"

definition append_game :: "string \<Rightarrow> boxscores \<Rightarrow> team_history \<Rightarrow> game \<Rightarrow> int \<Rightarrow> int \<Rightarrow> team_history" where
  "append_game sp bx th g hs as =
     (let home_box = boxscores_get bx (game_id g, home_team_id g);
          away_box = boxscores_get bx (game_id g, away_team_id g);
          th1 = th(home_team_id g := th (home_team_id g) @ [home_entry sp home_box away_box g hs as])
      in th1(away_team_id g := th1 (away_team_id g) @ [away_entry sp home_box away_box g hs as]))"

text \<open>
  The loop of \<open>compute_all\<close>. For every snapshot it writes, the trace holds the game,
  the team, the \<open>is_home\<close> flag and the history handed to
  \<open>_compute_stats_from_history\<close>.
\<close>

fun rolling_trace ::
    "string \<Rightarrow> boxscores \<Rightarrow> team_history \<Rightarrow> game list \<Rightarrow> (game \<times> nat \<times> bool \<times> history_entry list) list" where
  "rolling_trace sp bx th [] = []"
| "rolling_trace sp bx th (g # gs) =
     (case (home_score g, away_score g) of
        (Some hs, Some as) \<Rightarrow>
          [(g, home_team_id g, True, th (home_team_id g)),
           (g, away_team_id g, False, th (away_team_id g))]
          @ rolling_trace sp bx (append_game sp bx th g hs as) gs
      | _ \<Rightarrow> rolling_trace sp bx th gs)"

text \<open>The team histories after the loop.\<close>

fun rolling_history :: "string \<Rightarrow> boxscores \<Rightarrow> team_history \<Rightarrow> game list \<Rightarrow> team_history" where
  "rolling_history sp bx th [] = th"
| "rolling_history sp bx th (g # gs) =
     (case (home_score g, away_score g) of
        (Some hs, Some as) \<Rightarrow> rolling_history sp bx (append_game sp bx th g hs as) gs
      | _ \<Rightarrow> rolling_history sp bx th gs)"

text \<open>The values of one upsert into \<open>team_rolling_stats\<close>.\<close>

record snapshot_row =
  sr_team_id :: nat
  sr_game_id :: nat
  sr_as_of_date :: int
  sr_games_played :: nat
  sr_stats :: stats

definition snapshot_of ::
    "families \<Rightarrow> (nat \<times> nat \<rightharpoonup> real) \<Rightarrow> string \<Rightarrow> game \<times> nat \<times> bool \<times> history_entry list \<Rightarrow> snapshot_row" where
  "snapshot_of fam elo_map sp x =
     (case x of (g, tid, ih, history) \<Rightarrow>
        (let elo_before = (case elo_map (tid, game_id g) of Some e \<Rightarrow> e | None \<Rightarrow> 1500)
         in \<lparr>sr_team_id = tid, sr_game_id = game_id g, sr_as_of_date = game_date g,
             sr_games_played = length history,
             sr_stats = (compute_stats_from_history fam history elo_before sp ih)\<lparr>elo := elo_before\<rparr>\<rparr>))"

text \<open>
  \<open>compute_all\<close>: the upserts it executes, in order, for the final games of the sport
  in ascending date order, starting from empty histories.
\<close>

definition compute_all ::
    "families \<Rightarrow> (nat \<times> nat \<rightharpoonup> real) \<Rightarrow> boxscores \<Rightarrow> string \<Rightarrow> game list \<Rightarrow> snapshot_row list" where
  "compute_all fam elo_map bx sp gs =
     map (snapshot_of fam elo_map sp) (rolling_trace sp bx (\<lambda>_. []) (final_games sp gs))"

section \<open>feature\_engineer.py\<close>

text \<open>A row of \<open>team_rolling_stats\<close> as it is read back, with its JSON \<open>stats\<close> dict.\<close>

record team_rolling_stats =
  rs_team_id :: nat
  rs_game_id :: nat
  rs_as_of_date :: int
  rs_games_played :: int
  rs_stats :: "(string \<times> real) list"

record team =
  team_id :: nat
  current_elo :: real

definition SPORT_FEATURE_REGISTRY :: "string \<Rightarrow> string list" where
  "SPORT_FEATURE_REGISTRY sp =
     (if sp = ''NBA'' then
        [''home_efg_pct_10'', ''away_efg_pct_10'', ''home_tov_pct_10'', ''away_tov_pct_10'',
         ''home_ftr_10'', ''away_ftr_10'', ''home_oreb_pct_10'', ''away_oreb_pct_10'',
         ''home_net_rating_10'', ''away_net_rating_10'', ''home_pace_10'', ''away_pace_10'']
      else if sp = ''NHL'' then
        [''home_save_pct_10'', ''away_save_pct_10'', ''home_shot_diff_10'', ''away_shot_diff_10'',
         ''home_pp_pct_10'', ''away_pp_pct_10'', ''home_pk_pct_10'', ''away_pk_pct_10'',
         ''home_goals_per_game_10'', ''away_goals_per_game_10'']
      else if sp = ''MLB'' then
        [''home_ops_10'', ''away_ops_10'', ''home_era_10'', ''away_era_10'',
         ''home_whip_10'', ''away_whip_10'', ''home_k_bb_ratio_10'', ''away_k_bb_ratio_10'',
         ''home_runs_per_game_10'', ''away_runs_per_game_10'']
      else if sp = ''NCAAB'' then
        [''home_efg_pct_10'', ''away_efg_pct_10'', ''home_tov_pct_10'', ''away_tov_pct_10'',
         ''home_ftr_10'', ''away_ftr_10'', ''home_oreb_pct_10'', ''away_oreb_pct_10'']
      else if sp = ''NCAAF'' \<or> sp = ''NFL'' then
        [''home_yards_per_play_10'', ''away_yards_per_play_10'',
         ''home_tov_margin_10'', ''away_tov_margin_10'',
         ''home_third_down_pct_10'', ''away_third_down_pct_10'']
      else [])"

text \<open>\<open>d.get(k, default)\<close> on a stats or feature dict.\<close>

definition dict_get :: "(string \<times> real) list \<Rightarrow> string \<Rightarrow> real \<Rightarrow> real" where
  "dict_get d k dflt = (case map_of d k of Some v \<Rightarrow> v | None \<Rightarrow> dflt)"

text \<open>
  \<open>_get_rolling_stats\<close>: the row of the team at the game if there is one, else the
  row of the team with the latest \<open>as_of_date\<close> before the date (the first such row
  of the table when several share that date).
\<close>

definition get_rolling_stats ::
    "team_rolling_stats list \<Rightarrow> nat \<Rightarrow> int \<Rightarrow> nat option \<Rightarrow> team_rolling_stats option" where
  "get_rolling_stats rows tid before_date gid =
     (let fallback =
            (case sort_key (\<lambda>r. - rs_as_of_date r)
                    (filter (\<lambda>r. rs_team_id r = tid \<and> rs_as_of_date r < before_date) rows) of
               [] \<Rightarrow> None
             | r # _ \<Rightarrow> Some r)
      in case gid of
           None \<Rightarrow> fallback
         | Some i \<Rightarrow>
             (case filter (\<lambda>r. rs_team_id r = tid \<and> rs_game_id r = i) rows of
                r # _ \<Rightarrow> Some r
              | [] \<Rightarrow> fallback))"

text \<open>
  The difference of two \<open>datetime\<close>s is a \<open>timedelta\<close>, whose \<open>days\<close> is the number of
  whole days in it (rounded down).
\<close>

definition delta_days :: "int \<Rightarrow> int \<Rightarrow> int" where
  "delta_days d1 d2 = (d1 - d2) div 86400"

definition calc_rest_days_from_dates :: "int \<Rightarrow> int option \<Rightarrow> real" where
  "calc_rest_days_from_dates gd last_game_date =
     (case last_game_date of
        None \<Rightarrow> 3
      | Some d \<Rightarrow> min (of_int (delta_days gd d)) 7)"

definition get_team_last_n_games :: "game list \<Rightarrow> nat \<Rightarrow> nat \<Rightarrow> int \<Rightarrow> game list" where
  "get_team_last_n_games gs tid n before_date =
     take n (sort_key (\<lambda>g. - game_date g)
       (filter (\<lambda>g. (home_team_id g = tid \<or> away_team_id g = tid)
                     \<and> status g = ''Final'' \<and> game_date g < before_date) gs))"

definition get_h2h_games :: "game list \<Rightarrow> nat \<Rightarrow> nat \<Rightarrow> nat \<Rightarrow> int \<Rightarrow> game list" where
  "get_h2h_games gs team_a_id team_b_id n before_date =
     take n (sort_key (\<lambda>g. - game_date g)
       (filter (\<lambda>g. ((home_team_id g = team_a_id \<and> away_team_id g = team_b_id)
                      \<or> (home_team_id g = team_b_id \<and> away_team_id g = team_a_id))
                     \<and> status g = ''Final'' \<and> game_date g < before_date) gs))"

text \<open>\<open>score or 0\<close>\<close>

definition or0 :: "int option \<Rightarrow> int" where
  "or0 x = (case x of Some v \<Rightarrow> v | None \<Rightarrow> 0)"

text \<open>The condition under which the loops over games count a win of the team.\<close>

definition team_won :: "nat \<Rightarrow> game \<Rightarrow> bool" where
  "team_won tid g =
     ((home_team_id g = tid \<and> or0 (home_score g) > or0 (away_score g))
      \<or> (away_team_id g = tid \<and> or0 (away_score g) > or0 (home_score g)))"

definition h2h_home_wins_last5 :: "game list \<Rightarrow> nat \<Rightarrow> real" where
  "h2h_home_wins_last5 h2h_games home_tid =
     (if h2h_games \<noteq> []
      then of_nat (length (filter (team_won home_tid) h2h_games)) / of_nat (max (length h2h_games) 1)
      else 0.5)"

definition calc_win_pct :: "nat \<Rightarrow> game list \<Rightarrow> real" where
  "calc_win_pct tid gs =
     (if gs = [] then 0.5
      else of_nat (length (filter (team_won tid) gs)) / of_nat (length gs))"

definition calc_ppg :: "nat \<Rightarrow> game list \<Rightarrow> real \<Rightarrow> real" where
  "calc_ppg tid gs default_ppg =
     (if gs = [] then default_ppg
      else of_int (sum_list (map (\<lambda>g. if home_team_id g = tid then or0 (home_score g)
                                       else or0 (away_score g)) gs)) / of_nat (length gs))"

definition calc_papg :: "nat \<Rightarrow> game list \<Rightarrow> real \<Rightarrow> real" where
  "calc_papg tid gs default_ppg =
     (if gs = [] then default_ppg
      else of_int (sum_list (map (\<lambda>g. if home_team_id g = tid then or0 (away_score g)
                                       else or0 (home_score g)) gs)) / of_nat (length gs))"

definition calc_rest_days :: "int \<Rightarrow> game list \<Rightarrow> real" where
  "calc_rest_days gd gs =
     (case gs of
        [] \<Rightarrow> 3
      | most_recent # _ \<Rightarrow> min (of_int (delta_days gd (game_date most_recent))) 7)"

text \<open>The tables the feature engineer reads.\<close>

record db =
  db_games :: "game list"
  db_teams :: "team list"
  db_rolling :: "team_rolling_stats list"

text \<open>The sport-specific features taken from the two stats dicts.\<close>

definition sport_feature :: "(string \<times> real) list \<Rightarrow> (string \<times> real) list \<Rightarrow> string \<Rightarrow> (string \<times> real) list" where
  "sport_feature hs as feat =
     (if take 5 feat = ''home_'' then [(feat, dict_get hs (drop 5 feat) 0)]
      else if take 5 feat = ''away_'' then [(feat, dict_get as (drop 5 feat) 0)]
      else [])"

definition compute_features_from_rolling_stats ::
    "string option \<Rightarrow> db \<Rightarrow> game \<Rightarrow> (string \<times> real) list option" where
  "compute_features_from_rolling_stats self_sport d g =
     (case (get_rolling_stats (db_rolling d) (home_team_id g) (game_date g) (Some (game_id g)),
            get_rolling_stats (db_rolling d) (away_team_id g) (game_date g) (Some (game_id g))) of
        (Some home_stats, Some away_stats) \<Rightarrow>
          (if rs_games_played home_stats < 3 \<or> rs_games_played away_stats < 3 then None
           else
             (let hs = rs_stats home_stats;
                  as = rs_stats away_stats;
                  rest_days_home =
                    calc_rest_days_from_dates (game_date g) (Some (rs_as_of_date home_stats));
                  rest_days_away =
                    calc_rest_days_from_dates (game_date g) (Some (rs_as_of_date away_stats));
                  h2h_games = get_h2h_games (db_games d) (home_team_id g) (away_team_id g) 5
                                (game_date g);
                  sp = (case self_sport of Some s \<Rightarrow> (if s = [] then sport g else s)
                        | None \<Rightarrow> sport g)
              in Some
                   ([(''elo_diff'', dict_get hs ''elo'' 1500 - dict_get as ''elo'' 1500),
                     (''home_win_pct_10'', dict_get hs ''win_pct_10'' 0.5),
                     (''away_win_pct_10'', dict_get as ''win_pct_10'' 0.5),
                     (''home_ppg_20'', dict_get hs ''ppg_20'' 0),
                     (''away_ppg_20'', dict_get as ''ppg_20'' 0),
                     (''home_papg_20'', dict_get hs ''papg_20'' 0),
                     (''away_papg_20'', dict_get as ''papg_20'' 0),
                     (''rest_days_home'', rest_days_home),
                     (''rest_days_away'', rest_days_away),
                     (''h2h_home_wins_last5'', h2h_home_wins_last5 h2h_games (home_team_id g)),
                     (''home_streak'', dict_get hs ''streak'' 0),
                     (''away_streak'', dict_get as ''streak'' 0),
                     (''home_margin_avg_10'', dict_get hs ''margin_avg_10'' 0),
                     (''away_margin_avg_10'', dict_get as ''margin_avg_10'' 0)]
                    @ concat (map (sport_feature hs as) (SPORT_FEATURE_REGISTRY sp)))))
      | _ \<Rightarrow> None)"

text \<open>\<open>self.db.get(Team, id)\<close>\<close>

definition get_team :: "team list \<Rightarrow> nat \<Rightarrow> team option" where
  "get_team ts tid = find (\<lambda>t. team_id t = tid) ts"

text \<open>
  \<open>_compute_features_legacy\<close>. \<open>get_sport_config(game.sport).default_ppg\<close> is the
  parameter \<open>default_ppg_of\<close>, which is \<open>None\<close> for a sport without configuration
  (the source raises \<open>KeyError\<close> there).
\<close>

definition compute_features_legacy ::
    "(string \<Rightarrow> real option) \<Rightarrow> string option \<Rightarrow> db \<Rightarrow> game
       \<Rightarrow> py_error + (string \<times> real) list option" where
  "compute_features_legacy default_ppg_of self_sport d g =
     (case (get_team (db_teams d) (home_team_id g), get_team (db_teams d) (away_team_id g)) of
        (Some home_team, Some away_team) \<Rightarrow>
          (let home_last_10 = get_team_last_n_games (db_games d) (home_team_id g) 10 (game_date g);
               away_last_10 = get_team_last_n_games (db_games d) (away_team_id g) 10 (game_date g)
           in if length home_last_10 < 3 \<or> length away_last_10 < 3 then Inr None
              else
                (let home_last_20 =
                       get_team_last_n_games (db_games d) (home_team_id g) 20 (game_date g);
                     away_last_20 =
                       get_team_last_n_games (db_games d) (away_team_id g) 20 (game_date g)
                 in case default_ppg_of (sport g) of
                      None \<Rightarrow> Inl KeyError
                    | Some default_ppg \<Rightarrow>
                        (let elo_diff = current_elo home_team - current_elo away_team;
                             home_win_pct_last10 = calc_win_pct (home_team_id g) home_last_10;
                             away_win_pct_last10 = calc_win_pct (away_team_id g) away_last_10;
                             home_ppg = calc_ppg (home_team_id g) home_last_20 default_ppg;
                             away_ppg = calc_ppg (away_team_id g) away_last_20 default_ppg;
                             home_papg = calc_papg (home_team_id g) home_last_20 default_ppg;
                             away_papg = calc_papg (away_team_id g) away_last_20 default_ppg;
                             rest_days_home = calc_rest_days (game_date g) home_last_10;
                             rest_days_away = calc_rest_days (game_date g) away_last_10;
                             h2h = h2h_home_wins_last5
                                     (get_h2h_games (db_games d) (home_team_id g) (away_team_id g) 5
                                        (game_date g))
                                     (home_team_id g)
                         in case self_sport of
                              Some (c # cs) \<Rightarrow>
                                Inr (Some
                                  ([(''elo_diff'', elo_diff),
                                    (''home_win_pct_10'', home_win_pct_last10),
                                    (''away_win_pct_10'', away_win_pct_last10),
                                    (''home_ppg_20'', home_ppg),
                                    (''away_ppg_20'', away_ppg),
                                    (''home_papg_20'', home_papg),
                                    (''away_papg_20'', away_papg),
                                    (''rest_days_home'', rest_days_home),
                                    (''rest_days_away'', rest_days_away),
                                    (''h2h_home_wins_last5'', h2h),
                                    (''home_streak'', 0),
                                    (''away_streak'', 0),
                                    (''home_margin_avg_10'', 0),
                                    (''away_margin_avg_10'', 0)]
                                   @ map (\<lambda>feat. (feat, 0)) (SPORT_FEATURE_REGISTRY (c # cs))))
                            | _ \<Rightarrow>
                                Inr (Some
                                  [(''elo_diff'', elo_diff),
                                   (''home_win_pct_last10'', home_win_pct_last10),
                                   (''away_win_pct_last10'', away_win_pct_last10),
                                   (''home_ppg'', home_ppg),
                                   (''away_ppg'', away_ppg),
                                   (''home_papg'', home_papg),
                                   (''away_papg'', away_papg),
                                   (''rest_days_home'', rest_days_home),
                                   (''rest_days_away'', rest_days_away),
                                   (''h2h_home_wins_last5'', h2h)]))))
      | _ \<Rightarrow> Inr None)"

text \<open>
  \<open>compute_features\<close>: with a sport set (a non-empty string) the rolling-stats path
  is tried first and the legacy path is the fallback.
\<close>

definition compute_features ::
    "(string \<Rightarrow> real option) \<Rightarrow> string option \<Rightarrow> db \<Rightarrow> game
       \<Rightarrow> py_error + (string \<times> real) list option" where
  "compute_features default_ppg_of self_sport d g =
     (case self_sport of
        Some (c # cs) \<Rightarrow>
          (case compute_features_from_rolling_stats self_sport d g of
             Some result \<Rightarrow> Inr (Some result)
           | None \<Rightarrow> compute_features_legacy default_ppg_of self_sport d g)
      | _ \<Rightarrow> compute_features_legacy default_ppg_of self_sport d g)"

text \<open>
  In the words of the specification: the snapshot resolved for a team and a game is the
  row recorded exactly at the game, else the most recent row strictly before the game's
  date; the completed prior games of a team are its final games before the date.
\<close>

definition resolved_snapshot ::
    "team_rolling_stats list \<Rightarrow> nat \<Rightarrow> int \<Rightarrow> nat \<Rightarrow> team_rolling_stats \<Rightarrow> bool" where
  "resolved_snapshot rows tid before_date gid r =
     (r \<in> set rows \<and> rs_team_id r = tid
      \<and> (rs_game_id r = gid
         \<or> ((\<forall>r' \<in> set rows. \<not> (rs_team_id r' = tid \<and> rs_game_id r' = gid))
            \<and> rs_as_of_date r < before_date
            \<and> (\<forall>r' \<in> set rows. rs_team_id r' = tid \<and> rs_as_of_date r' < before_date
                  \<longrightarrow> rs_as_of_date r' \<le> rs_as_of_date r))))"

definition prior_final_games :: "game list \<Rightarrow> nat \<Rightarrow> int \<Rightarrow> game list" where
  "prior_final_games gs tid before_date =
     filter (\<lambda>g. (home_team_id g = tid \<or> away_team_id g = tid)
                  \<and> status g = ''Final'' \<and> game_date g < before_date) gs"

section \<open>Example data\<close>

text \<open>
  Three NBA games of teams 1, 2 and 3. \<open>game_a\<close> and \<open>game_c\<close> are played at the same
  date and both involve team 1; \<open>game_b\<close> opens the next season and has no scores.
\<close>

definition game_a :: game where
  "game_a = \<lparr>game_id = 1, sport = ''NBA'', season = 2023, game_date = 0, status = ''Final'',
             home_team_id = 1, away_team_id = 2, home_score = Some 110, away_score = Some 100\<rparr>"

definition game_b :: game where
  "game_b = \<lparr>game_id = 2, sport = ''NBA'', season = 2024, game_date = 17280000, status = ''Final'',
             home_team_id = 2, away_team_id = 1, home_score = None, away_score = None\<rparr>"

definition game_c :: game where
  "game_c = \<lparr>game_id = 3, sport = ''NBA'', season = 2023, game_date = 0, status = ''Final'',
             home_team_id = 1, away_team_id = 3, home_score = Some 90, away_score = Some 95\<rparr>"

text \<open>
  Team 1 and team 2 have met three times, two, five and eight days after the epoch;
  \<open>game_g\<close> is their game on day ten. \<open>row_h\<close> and \<open>row_a\<close> are the rows of the two
  teams at \<open>game_g\<close> (their \<open>as_of_date\<close> is the date of \<open>game_g\<close>, as \<open>compute_all\<close>
  writes it); \<open>row_h2\<close> is a row of team 1 with two games played.
\<close>

definition game_p1 :: game where
  "game_p1 = \<lparr>game_id = 11, sport = ''NBA'', season = 2023, game_date = 172800, status = ''Final'',
              home_team_id = 1, away_team_id = 2, home_score = Some 100, away_score = Some 90\<rparr>"

definition game_p2 :: game where
  "game_p2 = \<lparr>game_id = 12, sport = ''NBA'', season = 2023, game_date = 432000, status = ''Final'',
              home_team_id = 2, away_team_id = 1, home_score = Some 95, away_score = Some 99\<rparr>"

definition game_p3 :: game where
  "game_p3 = \<lparr>game_id = 13, sport = ''NBA'', season = 2023, game_date = 691200, status = ''Final'',
              home_team_id = 1, away_team_id = 2, home_score = Some 101, away_score = Some 97\<rparr>"

definition game_g :: game where
  "game_g = \<lparr>game_id = 14, sport = ''NBA'', season = 2023, game_date = 864000, status = ''Final'',
             home_team_id = 1, away_team_id = 2, home_score = Some 105, away_score = Some 99\<rparr>"

definition row_h :: team_rolling_stats where
  "row_h = \<lparr>rs_team_id = 1, rs_game_id = 14, rs_as_of_date = 864000, rs_games_played = 3,
            rs_stats = [(''elo'', 1510)]\<rparr>"

definition row_a :: team_rolling_stats where
  "row_a = \<lparr>rs_team_id = 2, rs_game_id = 14, rs_as_of_date = 864000, rs_games_played = 3,
            rs_stats = [(''elo'', 1490)]\<rparr>"

definition row_h2 :: team_rolling_stats where
  "row_h2 = \<lparr>rs_team_id = 1, rs_game_id = 14, rs_as_of_date = 864000, rs_games_played = 2,
             rs_stats = [(''elo'', 1510)]\<rparr>"

definition db_example :: db where
  "db_example = \<lparr>db_games = [game_p1, game_p2, game_p3, game_g],
                 db_teams = [\<lparr>team_id = 1, current_elo = 1510\<rparr>, \<lparr>team_id = 2, current_elo = 1490\<rparr>],
                 db_rolling = [row_h, row_a]\<rparr>"

definition db_short :: db where
  "db_short = \<lparr>db_games = [game_p1, game_g],
               db_teams = [\<lparr>team_id = 1, current_elo = 1510\<rparr>, \<lparr>team_id = 2, current_elo = 1490\<rparr>],
               db_rolling = [row_h2, row_a]\<rparr>"

definition example_default_ppg :: "string \<Rightarrow> real option" where
  "example_default_ppg sp = (if sp = ''NBA'' then Some 100 else None)"

text \<open>A history of two home games of team 1: a loss, then a win.\<close>

definition history_lw :: "history_entry list" where
  "history_lw = [home_entry ''NBA'' [] [] game_c 90 95, home_entry ''NBA'' [] [] game_a 110 100]"

section \<open>Properties of the rating replay\<close>

lemma root_lower:
  fixes x a c :: real
  assumes "0 \<le> x" and "x ^ n = c" and "a ^ n < c"
  shows "a < x"
proof (rule ccontr)
  assume "\<not> a < x"
  then have "x \<le> a" by (simp only: not_less)
  then have "x ^ n \<le> a ^ n" using assms(1) by (rule power_mono)
  with assms(2,3) show False by linarith
qed

lemma root_upper:
  fixes x b c :: real
  assumes "0 \<le> b" and "x ^ n = c" and "c < b ^ n"
  shows "x < b"
proof (rule ccontr)
  assume "\<not> x < b"
  then have "b \<le> x" by (simp only: not_less)
  then have "b ^ n \<le> x ^ n" using assms(1) by (rule power_mono)
  with assms(2,3) show False by linarith
qed

lemma pow_root_16: "(10 powr (- (3 / 16)) :: real) ^ 16 = 1 / 1000"
proof -
  have "(10 powr (- (3 / 16)) :: real) ^ 16 = (10 powr (- (3 / 16))) powr (real 16)"
    by (subst powr_realpow) simp_all
  also have "\<dots> = 10 powr (- 3)"
    by (simp add: powr_powr)
  also have "\<dots> = 1 / 1000"
    by (simp add: powr_neg_numeral)
  finally show ?thesis .
qed

lemma num_lo_16: "((648 / 1000) ^ 16 :: real) < 1 / 1000"
  by (simp add: power_divide)

lemma num_hi_16: "(1 / 1000 :: real) < (65 / 100) ^ 16"
  by (simp add: power_divide)

lemma ten_powr_bounds:
  "648 / 1000 < (10 powr (- (3 / 16)) :: real) \<and> (10 powr (- (3 / 16)) :: real) < 65 / 100"
proof
  show "648 / 1000 < (10 powr (- (3 / 16)) :: real)"
    by (rule root_lower [OF _ pow_root_16 num_lo_16]) (rule powr_ge_zero)
  show "(10 powr (- (3 / 16)) :: real) < 65 / 100"
    by (rule root_upper [OF _ pow_root_16 num_hi_16]) simp
qed

lemma pow_13: "(13 powr (4 / 5) :: real) ^ 5 = 28561"
proof -
  have "(13 powr (4 / 5) :: real) ^ 5 = (13 powr (4 / 5)) powr (real 5)"
    by (subst powr_realpow) simp_all
  also have "\<dots> = 13 powr 4"
    by (simp add: powr_powr)
  also have "\<dots> = 13 powr (real 4)" by simp
  also have "\<dots> = 13 ^ 4" by (subst powr_realpow) simp_all
  finally show ?thesis by simp
qed

lemma num_lo_5: "((778 / 100) ^ 5 :: real) < 28561"
  by (simp add: power_divide)

lemma num_hi_5: "(28561 :: real) < (779 / 100) ^ 5"
  by (simp add: power_divide)

lemma thirteen_powr_bounds:
  "778 / 100 < (13 powr (4 / 5) :: real) \<and> (13 powr (4 / 5) :: real) < 779 / 100"
proof
  show "778 / 100 < (13 powr (4 / 5) :: real)"
    by (rule root_lower [OF _ pow_13 num_lo_5]) (rule powr_ge_zero)
  show "(13 powr (4 / 5) :: real) < 779 / 100"
    by (rule root_upper [OF _ pow_13 num_hi_5]) simp
qed

lemma inv_sum_one: "0 < (t::real) \<Longrightarrow> 1 / (1 + t) + 1 / (1 + inverse t) = 1"
proof -
  assume t: "0 < t"
  have "1 + inverse t = (t + 1) / t" using t by (simp add: field_simps)
  then have "1 / (1 + inverse t) = t / (1 + t)" by (simp add: add.commute)
  then have "1 / (1 + t) + 1 / (1 + inverse t) = (1 + t) / (1 + t)"
    by (simp only: add_divide_distrib)
  then show ?thesis using t by simp
qed

lemma neg_quot: "((a::real) - b) / 400 = - ((b - a) / 400)"
  by (simp only: minus_divide_left minus_diff_eq)

lemma powr_flip: "(10 powr ((a - b) / 400) :: real) = inverse (10 powr ((b - a) / 400))"
  by (subst neg_quot) (rule powr_minus)

lemma expected_sum: "calculate_expected a b + calculate_expected b a = 1"
  unfolding calculate_expected_def
  by (subst powr_flip) (rule inv_sum_one, simp)

lemma recip_less_one: "0 < (t::real) \<Longrightarrow> 1 / (1 + t) < 1"
  by simp

lemma expected_less_one: "calculate_expected a b < 1"
  unfolding calculate_expected_def by (rule recip_less_one) simp

lemma recip_bounds:
  "648 / 1000 < (x::real) \<Longrightarrow> x < 65 / 100 \<Longrightarrow> 606 / 1000 < 1 / (1 + x) \<and> 1 / (1 + x) < 607 / 1000"
proof
  assume "648 / 1000 < x" "x < 65 / 100"
  then show "606 / 1000 < 1 / (1 + x)" by (subst pos_less_divide_eq) argo+
next
  assume "648 / 1000 < x" "x < 65 / 100"
  then show "1 / (1 + x) < 607 / 1000" by (subst pos_divide_less_eq) argo+
qed

lemma scaled_bounds:
  "778 / 100 < (y::real) \<Longrightarrow> y < 779 / 100 \<Longrightarrow>
     207 / 10 < 20 * y / (15 / 2) \<and> 20 * y / (15 / 2) < 208 / 10"
proof -
  assume b: "778 / 100 < y" "y < 779 / 100"
  have e: "20 * y / (15 / 2) = 8 / 3 * y" by simp
  from b have "207 / 10 < 8 / 3 * y \<and> 8 / 3 * y < 208 / 10" by argo
  then show ?thesis by (simp only: e)
qed

lemma k_scenario: "k_factor nba_elo_config (110 - 100) (1500 - 1500) = 20 * 13 powr (4 / 5) / (15 / 2)"
  by (simp add: k_factor_def nba_elo_config_def)

lemma k_scenario_bounds:
  "207 / 10 < k_factor nba_elo_config (110 - 100) (1500 - 1500)
   \<and> k_factor nba_elo_config (110 - 100) (1500 - 1500) < 208 / 10"
  unfolding k_scenario
  by (rule scaled_bounds [OF conjunct1 [OF thirteen_powr_bounds] conjunct2 [OF thirteen_powr_bounds]])

lemma expected_scenario:
  "calculate_expected (1500 + HOME_ADVANTAGE nba_elo_config) 1500 = 1 / (1 + 10 powr (- (3 / 16)))"
  by (simp add: calculate_expected_def nba_elo_config_def)

lemma expected_scenario_bounds:
  "606 / 1000 < calculate_expected (1500 + HOME_ADVANTAGE nba_elo_config) 1500
   \<and> calculate_expected (1500 + HOME_ADVANTAGE nba_elo_config) 1500 < 607 / 1000"
  unfolding expected_scenario
  by (rule recip_bounds [OF conjunct1 [OF ten_powr_bounds] conjunct2 [OF ten_powr_bounds]])

lemma update_elo_home_win:
  assumes "as < hs"
  shows "update_elo cfg h a hs as =
     (h + k_factor cfg (hs - as) (h - a) * (1 - calculate_expected (h + HOME_ADVANTAGE cfg) a),
      a - k_factor cfg (hs - as) (h - a) * (1 - calculate_expected (h + HOME_ADVANTAGE cfg) a))"
proof -
  have "calculate_expected a (h + HOME_ADVANTAGE cfg)
      = 1 - calculate_expected (h + HOME_ADVANTAGE cfg) a"
    using expected_sum [of a "h + HOME_ADVANTAGE cfg"] by linarith
  then show ?thesis using assms by (simp add: update_elo_def Let_def)
qed

lemma k_scenario_lit:
  "k_factor nba_elo_config (110 - 100) (1500 - 1500) = 20 * 13 powr 0.8 / 7.5"
  by (simp add: k_factor_def nba_elo_config_def)

lemma other_k_small:
  "778 / 100 < (y::real) \<Longrightarrow> y < 779 / 100 \<Longrightarrow> 20 * y / (159 / 20) < 20"
  by argo

lemma other_k_lit: "(20 * 13 powr 0.8 / (7.5 + 0.006 * 75) :: real) < 20"
proof -
  have e: "(13 powr 0.8 :: real) = 13 powr (4 / 5)" by simp
  have d: "(7.5 + 0.006 * 75 :: real) = 159 / 20" by simp
  show ?thesis unfolding e d
    by (rule other_k_small [OF conjunct1 [OF thirteen_powr_bounds] conjunct2 [OF thirteen_powr_bounds]])
qed

lemma gain_pos:
  "0 < k_factor nba_elo_config (110 - 100) (1500 - 1500)
        * (1 - calculate_expected (1500 + HOME_ADVANTAGE nba_elo_config) 1500)"
proof -
  have "0 < k_factor nba_elo_config (110 - 100) (1500 - 1500)"
    using k_scenario_bounds by linarith
  moreover have "0 < 1 - calculate_expected (1500 + HOME_ADVANTAGE nba_elo_config) 1500"
    using expected_less_one [of "1500 + HOME_ADVANTAGE nba_elo_config" 1500] by linarith
  ultimately show ?thesis by (rule mult_pos_pos)
qed

lemma update_scenario:
  "update_elo nba_elo_config 1500 1500 110 100 =
     (1500 + k_factor nba_elo_config (110 - 100) (1500 - 1500)
               * (1 - calculate_expected (1500 + HOME_ADVANTAGE nba_elo_config) 1500),
      1500 - k_factor nba_elo_config (110 - 100) (1500 - 1500)
               * (1 - calculate_expected (1500 + HOME_ADVANTAGE nba_elo_config) 1500))"
  by (rule update_elo_home_win) simp

text \<open>
  Claim C2, as the code computes it. With both teams at 1500, home advantage 75,
  \<open>K_BASE\<close> 20 and a 110--100 home win, the expected home score is between 0.606 and
  0.607; the K-factor is \<open>20 * 13 ^ 0.8 / 7.5\<close>, between 20.7 and 20.8, because the
  rating difference it uses is \<open>home_elo - away_elo = 0\<close> without the home advantage;
  the new home rating is above 1500, the new away rating below, both moved by the same
  amount, so that their sum is exactly 3000.
\<close>

theorem update_elo_scenario_A:
  "606 / 1000 < calculate_expected (1500 + HOME_ADVANTAGE nba_elo_config) 1500
   \<and> calculate_expected (1500 + HOME_ADVANTAGE nba_elo_config) 1500 < 607 / 1000
   \<and> k_factor nba_elo_config (110 - 100) (1500 - 1500) = 20 * 13 powr 0.8 / 7.5
   \<and> 207 / 10 < k_factor nba_elo_config (110 - 100) (1500 - 1500)
   \<and> k_factor nba_elo_config (110 - 100) (1500 - 1500) < 208 / 10
   \<and> 1500 < fst (update_elo nba_elo_config 1500 1500 110 100)
   \<and> snd (update_elo nba_elo_config 1500 1500 110 100) < 1500
   \<and> fst (update_elo nba_elo_config 1500 1500 110 100) - 1500
        = 1500 - snd (update_elo nba_elo_config 1500 1500 110 100)
   \<and> fst (update_elo nba_elo_config 1500 1500 110 100)
        + snd (update_elo nba_elo_config 1500 1500 110 100) = 3000"
proof -
  have a: "1500 < fst (update_elo nba_elo_config 1500 1500 110 100)"
    unfolding update_scenario fst_conv using gain_pos by linarith
  have b: "snd (update_elo nba_elo_config 1500 1500 110 100) < 1500"
    unfolding update_scenario snd_conv using gain_pos by linarith
  have c: "fst (update_elo nba_elo_config 1500 1500 110 100) - 1500
        = 1500 - snd (update_elo nba_elo_config 1500 1500 110 100)"
    unfolding update_scenario fst_conv snd_conv by linarith
  have d: "fst (update_elo nba_elo_config 1500 1500 110 100)
        + snd (update_elo nba_elo_config 1500 1500 110 100) = 3000"
    unfolding update_scenario fst_conv snd_conv by linarith
  show ?thesis
    using expected_scenario_bounds k_scenario_lit k_scenario_bounds a b c d by blast
qed

text \<open>
  Claim C2 as stated fails at its own input: the expected home score is not within
  0.09 of 0.511, the K-factor is not \<open>20 * 13 ^ 0.8 / (7.5 + 0.006 * 75)\<close> and is
  not within 20 of 41.4.
\<close>

theorem update_elo_scenario_A_counterexample:
  "\<not> \<bar>calculate_expected (1500 + HOME_ADVANTAGE nba_elo_config) 1500 - 0.511\<bar> \<le> 0.09
   \<and> k_factor nba_elo_config (110 - 100) (1500 - 1500) \<noteq> 20 * 13 powr 0.8 / (7.5 + 0.006 * 75)
   \<and> \<not> \<bar>k_factor nba_elo_config (110 - 100) (1500 - 1500) - 41.4\<bar> \<le> 20"
proof -
  have a: "\<not> \<bar>calculate_expected (1500 + HOME_ADVANTAGE nba_elo_config) 1500 - 0.511\<bar> \<le> 0.09"
  proof -
    have "9 / 100 < calculate_expected (1500 + HOME_ADVANTAGE nba_elo_config) 1500 - 511 / 1000"
      using expected_scenario_bounds by argo
    then show ?thesis by simp
  qed
  have b: "k_factor nba_elo_config (110 - 100) (1500 - 1500)
             \<noteq> 20 * 13 powr 0.8 / (7.5 + 0.006 * 75)"
    using k_scenario_bounds other_k_lit by linarith
  have c: "\<not> \<bar>k_factor nba_elo_config (110 - 100) (1500 - 1500) - 41.4\<bar> \<le> 20"
  proof -
    have "k_factor nba_elo_config (110 - 100) (1500 - 1500) - 414 / 10 < - 20"
      using k_scenario_bounds by argo
    then show ?thesis by simp
  qed
  from a b c show ?thesis by blast
qed

lemma elo_loop_append: "elo_loop cfg st (xs @ ys) = elo_loop cfg (elo_loop cfg st xs) ys"
  by (induction xs arbitrary: st) simp_all

lemma current_season_process: "current_season (process_game cfg st g) = Some (season g)"
  by (simp add: process_game_def Let_def split: prod.splits option.splits)

lemma current_season_step: "current_season (elo_step cfg st g) = Some (season g)"
  by (simp add: elo_step_def current_season_process)

lemma current_season_loop:
  "pre \<noteq> [] \<Longrightarrow> current_season (elo_loop cfg st pre) = Some (season (last pre))"
proof (induction pre arbitrary: st)
  case Nil
  then show ?case by simp
next
  case (Cons g gs)
  show ?case
  proof (cases "gs = []")
    case True
    then show ?thesis by (simp add: current_season_step)
  next
    case False
    with Cons.IH show ?thesis by simp
  qed
qed

lemma season_reset_distance:
  "season_reset cfg r - 1500 = season_regression cfg * (r - 1500)"
  by (simp add: season_reset_def INITIAL_ELO_def algebra_simps)

lemma season_reset_moves:
  "r - season_reset cfg r = (1 - season_regression cfg) * (r - 1500)"
  by (simp add: season_reset_def INITIAL_ELO_def algebra_simps)








lemma season_after_a:
  "current_season (elo_loop cfg init_elo_state [game_a]) = Some 2023"
  by (simp add: current_season_step game_a_def)




text \<open>
  Claim C6. When the season of a game differs from the season of the game before it in
  the replay, the loop continues from the state in which every tracked rating \<open>r\<close> has
  been replaced by \<open>regression * r + (1 - regression) * 1500\<close>, and only then
  processes the game; the distance of a rating from 1500 is multiplied by the
  regression factor, so the rating moves by \<open>(1 - regression)\<close> of that distance.
\<close>

theorem season_change_regresses_every_rating:
  assumes "pre \<noteq> []" and "season g \<noteq> season (last pre)"
  shows "elo_loop cfg st0 (pre @ g # post) =
           elo_loop cfg
             (process_game cfg
                ((elo_loop cfg st0 pre)\<lparr>elos := reset_all cfg (elos (elo_loop cfg st0 pre))\<rparr>) g)
             post
         \<and> (\<forall>tid. reset_all cfg (elos (elo_loop cfg st0 pre)) tid =
               map_option (\<lambda>r. season_regression cfg * r + (1 - season_regression cfg) * 1500)
                 (elos (elo_loop cfg st0 pre) tid))
         \<and> (\<forall>r. season_reset cfg r - 1500 = season_regression cfg * (r - 1500))
         \<and> (\<forall>r. r - season_reset cfg r = (1 - season_regression cfg) * (r - 1500))"
proof -
  let ?st = "elo_loop cfg st0 pre"
  have cs: "current_season ?st = Some (season (last pre))"
    using assms(1) by (rule current_season_loop)
  have "elo_step cfg ?st g = process_game cfg (?st\<lparr>elos := reset_all cfg (elos ?st)\<rparr>) g"
    using assms(2) by (simp add: elo_step_def season_boundary_def cs)
  then have a: "elo_loop cfg st0 (pre @ g # post) =
      elo_loop cfg (process_game cfg (?st\<lparr>elos := reset_all cfg (elos ?st)\<rparr>) g) post"
    by (simp add: elo_loop_append)
  have b: "\<forall>tid. reset_all cfg (elos ?st) tid =
      map_option (\<lambda>r. season_regression cfg * r + (1 - season_regression cfg) * 1500) (elos ?st tid)"
    by (simp add: reset_all_def season_reset_def[abs_def] INITIAL_ELO_def)
  show ?thesis
    using a b season_reset_distance season_reset_moves by blast
qed

text \<open>
  Claim C6 at \<open>game_a\<close> (season 2023) followed by \<open>game_b\<close> (season 2024), with the
  NBA regression 0.75: a rating of 1600 keeps 75 of its 100 points above 1500.
\<close>

theorem season_change_regresses_every_rating_witness:
  "[game_a] \<noteq> [] \<and> season game_b \<noteq> season (last [game_a])
   \<and> elo_loop nba_elo_config init_elo_state ([game_a] @ game_b # []) =
       elo_loop nba_elo_config
         (process_game nba_elo_config
            ((elo_loop nba_elo_config init_elo_state [game_a])
               \<lparr>elos := reset_all nba_elo_config
                          (elos (elo_loop nba_elo_config init_elo_state [game_a]))\<rparr>) game_b)
         []
   \<and> season_reset nba_elo_config 1600 - 1500 = 75"
proof -
  have h1: "[game_a] \<noteq> []" by simp
  have h2: "season game_b \<noteq> season (last [game_a])" by (simp add: game_a_def game_b_def)
  note t = season_change_regresses_every_rating [OF h1 h2, of nba_elo_config init_elo_state "[]"]
  have "season_reset nba_elo_config 1600 - 1500 = season_regression nba_elo_config * (1600 - 1500)"
    using t [THEN conjunct2, THEN conjunct2, THEN conjunct1] by (rule spec)
  then have 3: "season_reset nba_elo_config 1600 - 1500 = 75"
    by (simp add: nba_elo_config_def)
  from h1 h2 t [THEN conjunct1] 3 show ?thesis by blast
qed

section \<open>Games without scores\<close>



lemma rolling_trace_skip:
  "home_score g = None \<or> away_score g = None \<Longrightarrow>
     rolling_trace sp bx th (g # gs) = rolling_trace sp bx th gs"
  by (auto split: option.splits)

lemma rolling_history_skip:
  "home_score g = None \<or> away_score g = None \<Longrightarrow>
     rolling_history sp bx th (g # gs) = rolling_history sp bx th gs"
  by (auto split: option.splits)



section \<open>No lookahead in the rolling replay\<close>

lemma trace_history:
  "(g, tid, ih, h) \<in> set (rolling_trace sp bx th gs) \<Longrightarrow>
     \<exists>pre post. gs = pre @ g # post \<and> h = rolling_history sp bx th pre tid"
proof (induction gs arbitrary: th)
  case Nil
  then show ?case by simp
next
  case (Cons x xs)
  show ?case
  proof (cases "home_score x = None \<or> away_score x = None")
    case True
    with Cons.prems have "(g, tid, ih, h) \<in> set (rolling_trace sp bx th xs)"
      by (simp only: rolling_trace_skip)
    from Cons.IH [OF this] obtain pre post
      where "xs = pre @ g # post" "h = rolling_history sp bx th pre tid" by blast
    then have "x # xs = (x # pre) @ g # post \<and> h = rolling_history sp bx th (x # pre) tid"
      using True by (simp add: rolling_history_skip del: rolling_history.simps)
    then show ?thesis by blast
  next
    case False
    then obtain hs as where sc: "home_score x = Some hs" "away_score x = Some as" by auto
    let ?th = "append_game sp bx th x hs as"
    from Cons.prems sc have "(g, tid, ih, h) = (x, home_team_id x, True, th (home_team_id x))
        \<or> (g, tid, ih, h) = (x, away_team_id x, False, th (away_team_id x))
        \<or> (g, tid, ih, h) \<in> set (rolling_trace sp bx ?th xs)"
      by auto
    then show ?thesis
    proof (elim disjE)
      assume "(g, tid, ih, h) = (x, home_team_id x, True, th (home_team_id x))"
      then have "x # xs = [] @ g # xs \<and> h = rolling_history sp bx th [] tid" by simp
      then show ?thesis by blast
    next
      assume "(g, tid, ih, h) = (x, away_team_id x, False, th (away_team_id x))"
      then have "x # xs = [] @ g # xs \<and> h = rolling_history sp bx th [] tid" by simp
      then show ?thesis by blast
    next
      assume "(g, tid, ih, h) \<in> set (rolling_trace sp bx ?th xs)"
      from Cons.IH [OF this] obtain pre post
        where "xs = pre @ g # post" "h = rolling_history sp bx ?th pre tid" by blast
      then have "x # xs = (x # pre) @ g # post \<and> h = rolling_history sp bx th (x # pre) tid"
        using sc by simp
      then show ?thesis by blast
    qed
  qed
qed

lemma history_origin:
  "e \<in> set (rolling_history sp bx th pre tid) \<Longrightarrow>
     e \<in> set (th tid) \<or>
     (\<exists>g' \<in> set pre. \<exists>hs as. home_score g' = Some hs \<and> away_score g' = Some as
        \<and> ((home_team_id g' = tid \<and>
               e = home_entry sp (boxscores_get bx (game_id g', home_team_id g'))
                     (boxscores_get bx (game_id g', away_team_id g')) g' hs as)
            \<or> (away_team_id g' = tid \<and>
               e = away_entry sp (boxscores_get bx (game_id g', home_team_id g'))
                     (boxscores_get bx (game_id g', away_team_id g')) g' hs as)))"
proof (induction pre arbitrary: th)
  case Nil
  then show ?case by simp
next
  case (Cons x xs)
  show ?case
  proof (cases "home_score x = None \<or> away_score x = None")
    case True
    with Cons.prems have "e \<in> set (rolling_history sp bx th xs tid)"
      by (simp only: rolling_history_skip)
    from Cons.IH [OF this] show ?thesis by auto
  next
    case False
    then obtain hs as where sc: "home_score x = Some hs" "away_score x = Some as" by auto
    let ?th = "append_game sp bx th x hs as"
    from Cons.prems sc have "e \<in> set (rolling_history sp bx ?th xs tid)" by simp
    from Cons.IH [OF this] show ?thesis
    proof
      assume "e \<in> set (?th tid)"
      then show ?thesis using sc
        by (auto simp: append_game_def Let_def split: if_splits)
    next
      assume "\<exists>g'\<in>set xs. \<exists>hs as. home_score g' = Some hs \<and> away_score g' = Some as
        \<and> ((home_team_id g' = tid \<and>
               e = home_entry sp (boxscores_get bx (game_id g', home_team_id g'))
                     (boxscores_get bx (game_id g', away_team_id g')) g' hs as)
            \<or> (away_team_id g' = tid \<and>
               e = away_entry sp (boxscores_get bx (game_id g', home_team_id g'))
                     (boxscores_get bx (game_id g', away_team_id g')) g' hs as))"
      then show ?thesis by auto
    qed
  qed
qed

lemma entry_ids:
  "he_game_id (home_entry sp hb ab g hs as) = game_id g"
  "he_game_date (home_entry sp hb ab g hs as) = game_date g"
  "he_game_id (away_entry sp hb ab g hs as) = game_id g"
  "he_game_date (away_entry sp hb ab g hs as) = game_date g"
  by (simp_all add: home_entry_def away_entry_def)

lemma sorted_final_games: "sorted (map game_date (final_games sp gs))"
  by (simp add: final_games_def)

lemma sorted_prefix_le:
  "sorted (map f (pre @ g # post)) \<Longrightarrow> g' \<in> set pre \<Longrightarrow> f g' \<le> f g"
  by (auto simp: sorted_append)

lemma final_games_ac: "final_games ''NBA'' [game_a, game_c] = [game_a, game_c]"
  by (simp add: final_games_def game_a_def game_c_def)

lemma trace_ac:
  "rolling_trace ''NBA'' Map.empty (\<lambda>_. []) [game_a, game_c] =
     [(game_a, 1, True, []), (game_a, 2, False, []),
      (game_c, 1, True, [home_entry ''NBA'' [] [] game_a 110 100]), (game_c, 3, False, [])]"
  by (simp add: game_a_def game_c_def append_game_def boxscores_get_def Let_def)

text \<open>
  Claim C3, as the code behaves. Every snapshot row written by \<open>compute_all\<close> is
  computed for a game \<open>g\<close> of the replay and a team from a history each of whose
  entries comes from a game \<open>g'\<close> that stands before \<open>g\<close> in the replay, has both
  scores, is a game of that team and has a date not later than the date of \<open>g\<close>.
\<close>

theorem snapshot_uses_only_earlier_games:
  assumes "row \<in> set (compute_all fam elo_map bx sp gs)"
  shows "\<exists>g tid ih h pre post.
           final_games sp gs = pre @ g # post
         \<and> row = snapshot_of fam elo_map sp (g, tid, ih, h)
         \<and> (\<forall>e \<in> set h. \<exists>g' \<in> set pre. \<exists>hs as.
               home_score g' = Some hs \<and> away_score g' = Some as
             \<and> game_date g' \<le> game_date g
             \<and> he_game_id e = game_id g' \<and> he_game_date e = game_date g'
             \<and> ((home_team_id g' = tid \<and>
                    e = home_entry sp (boxscores_get bx (game_id g', home_team_id g'))
                          (boxscores_get bx (game_id g', away_team_id g')) g' hs as)
                 \<or> (away_team_id g' = tid \<and>
                    e = away_entry sp (boxscores_get bx (game_id g', home_team_id g'))
                          (boxscores_get bx (game_id g', away_team_id g')) g' hs as)))"
proof -
  from assms obtain x where x: "x \<in> set (rolling_trace sp bx (\<lambda>_. []) (final_games sp gs))"
      and row: "row = snapshot_of fam elo_map sp x"
    by (auto simp: compute_all_def)
  obtain g tid ih h where xe: "x = (g, tid, ih, h)" by (cases x) auto
  from trace_history [OF x [unfolded xe]] obtain pre post
    where dec: "final_games sp gs = pre @ g # post"
      and h: "h = rolling_history sp bx (\<lambda>_. []) pre tid" by blast
  have srt: "sorted (map game_date (pre @ g # post))"
    using sorted_final_games [of sp gs] by (simp only: dec)
  have "\<forall>e \<in> set h. \<exists>g' \<in> set pre. \<exists>hs as.
               home_score g' = Some hs \<and> away_score g' = Some as
             \<and> game_date g' \<le> game_date g
             \<and> he_game_id e = game_id g' \<and> he_game_date e = game_date g'
             \<and> ((home_team_id g' = tid \<and>
                    e = home_entry sp (boxscores_get bx (game_id g', home_team_id g'))
                          (boxscores_get bx (game_id g', away_team_id g')) g' hs as)
                 \<or> (away_team_id g' = tid \<and>
                    e = away_entry sp (boxscores_get bx (game_id g', home_team_id g'))
                          (boxscores_get bx (game_id g', away_team_id g')) g' hs as))"
  proof
    fix e assume "e \<in> set h"
    then have "e \<in> set (rolling_history sp bx (\<lambda>_. []) pre tid)" by (simp only: h)
    from history_origin [OF this] obtain g' hs as where g': "g' \<in> set pre"
      and sc: "home_score g' = Some hs" "away_score g' = Some as"
      and e: "(home_team_id g' = tid \<and>
               e = home_entry sp (boxscores_get bx (game_id g', home_team_id g'))
                     (boxscores_get bx (game_id g', away_team_id g')) g' hs as)
            \<or> (away_team_id g' = tid \<and>
               e = away_entry sp (boxscores_get bx (game_id g', home_team_id g'))
                     (boxscores_get bx (game_id g', away_team_id g')) g' hs as)"
      by auto
    have le: "game_date g' \<le> game_date g" using srt g' by (rule sorted_prefix_le)
    have ids: "he_game_id e = game_id g' \<and> he_game_date e = game_date g'"
      using e by (auto simp: entry_ids)
    from g' sc le ids e
    show "\<exists>g' \<in> set pre. \<exists>hs as.
               home_score g' = Some hs \<and> away_score g' = Some as
             \<and> game_date g' \<le> game_date g
             \<and> he_game_id e = game_id g' \<and> he_game_date e = game_date g'
             \<and> ((home_team_id g' = tid \<and>
                    e = home_entry sp (boxscores_get bx (game_id g', home_team_id g'))
                          (boxscores_get bx (game_id g', away_team_id g')) g' hs as)
                 \<or> (away_team_id g' = tid \<and>
                    e = away_entry sp (boxscores_get bx (game_id g', home_team_id g'))
                          (boxscores_get bx (game_id g', away_team_id g')) g' hs as))"
      by blast
  qed
  with dec row xe show ?thesis by blast
qed

text \<open>
  Claim C3 at the snapshot of team 1 for \<open>game_c\<close>, whose history holds the entry of
  \<open>game_a\<close>.
\<close>

theorem snapshot_uses_only_earlier_games_witness:
  "snapshot_of (\<lambda>_ _ _. []) Map.empty ''NBA''
       (game_c, 1, True, [home_entry ''NBA'' [] [] game_a 110 100])
     \<in> set (compute_all (\<lambda>_ _ _. []) Map.empty Map.empty ''NBA'' [game_a, game_c])
   \<and> (\<exists>g tid ih h pre post.
           final_games ''NBA'' [game_a, game_c] = pre @ g # post
         \<and> snapshot_of (\<lambda>_ _ _. []) Map.empty ''NBA''
               (game_c, 1, True, [home_entry ''NBA'' [] [] game_a 110 100])
             = snapshot_of (\<lambda>_ _ _. []) Map.empty ''NBA'' (g, tid, ih, h)
         \<and> (\<forall>e \<in> set h. \<exists>g' \<in> set pre. \<exists>hs as.
               home_score g' = Some hs \<and> away_score g' = Some as
             \<and> game_date g' \<le> game_date g
             \<and> he_game_id e = game_id g' \<and> he_game_date e = game_date g'
             \<and> ((home_team_id g' = tid \<and>
                    e = home_entry ''NBA'' (boxscores_get Map.empty (game_id g', home_team_id g'))
                          (boxscores_get Map.empty (game_id g', away_team_id g')) g' hs as)
                 \<or> (away_team_id g' = tid \<and>
                    e = away_entry ''NBA'' (boxscores_get Map.empty (game_id g', home_team_id g'))
                          (boxscores_get Map.empty (game_id g', away_team_id g')) g' hs as))))"
proof -
  have m: "snapshot_of (\<lambda>_ _ _. []) Map.empty ''NBA''
       (game_c, 1, True, [home_entry ''NBA'' [] [] game_a 110 100])
     \<in> set (compute_all (\<lambda>_ _ _. []) Map.empty Map.empty ''NBA'' [game_a, game_c])"
    unfolding compute_all_def final_games_ac trace_ac by simp
  from m snapshot_uses_only_earlier_games [OF m] show ?thesis by (rule conjI)
qed

text \<open>
  Claim C3 as stated fails for games of one date: the snapshot of team 1 for \<open>game_c\<close>
  is computed from the entry of \<open>game_a\<close>, whose date is not strictly less than the
  date of \<open>game_c\<close>.
\<close>

theorem no_lookahead_counterexample:
  "(game_c, 1, True, [home_entry ''NBA'' [] [] game_a 110 100])
     \<in> set (rolling_trace ''NBA'' Map.empty (\<lambda>_. []) (final_games ''NBA'' [game_a, game_c]))
   \<and> \<not> he_game_date (home_entry ''NBA'' [] [] game_a 110 100) < game_date game_c"
  unfolding final_games_ac trace_ac
  by (simp add: home_entry_def game_a_def game_c_def)

section \<open>Turnover margin\<close>

lemma tov_margin_value_eq:
  "0 \<le> box_get b ''opp_turnovers'' 0 \<Longrightarrow>
     tov_margin_value b = box_get b ''opp_turnovers'' 0 - box_get b ''turnovers'' 0"
  by (simp add: tov_margin_value_def Let_def)

lemma box_get_update_same: "box_get (AList.update k v b) k d = v"
  by (simp add: box_get_def update_conv')

lemma box_get_update_other: "k' \<noteq> k \<Longrightarrow> box_get (AList.update k v b) k' d = box_get b k' d"
  by (simp add: box_get_def update_conv')

lemma football_tov_margin:
  "boxes \<noteq> [] \<Longrightarrow>
     dict_get (compute_football_stats boxes l10) ''tov_margin_10'' 0
       = ewma (map (\<lambda>b. of_int (tov_margin_value b)) boxes)"
  by (simp add: compute_football_stats_def dict_get_def)

text \<open>
  Claim C10. For the football sports and non-negative turnover counts, the value
  appended to \<open>tov_margin_vals\<close> for a boxscore is \<open>opp_turnovers - turnovers\<close> with
  missing keys read as 0, in both branches of the availability check; this is what
  \<open>tov_margin_10\<close> averages, and for the entries \<open>compute_all\<close> stores it is the
  opponent's turnovers minus the team's own.
\<close>

theorem turnover_margin_is_plain_difference:
  assumes "sp = ''NFL'' \<or> sp = ''NCAAF''"
    and "\<forall>b \<in> set boxes. 0 \<le> box_get b ''opp_turnovers'' 0"
    and "0 \<le> box_get home_box ''turnovers'' 0" and "0 \<le> box_get away_box ''turnovers'' 0"
  shows "(\<forall>b \<in> set boxes.
            tov_margin_value b = box_get b ''opp_turnovers'' 0 - box_get b ''turnovers'' 0)
     \<and> (boxes \<noteq> [] \<longrightarrow>
          dict_get (compute_football_stats boxes l10) ''tov_margin_10'' 0
            = ewma (map (\<lambda>b. of_int (box_get b ''opp_turnovers'' 0 - box_get b ''turnovers'' 0))
                 boxes))
     \<and> tov_margin_value (boxscore (home_entry sp home_box away_box g hs as))
          = box_get away_box ''turnovers'' 0 - box_get home_box ''turnovers'' 0
     \<and> tov_margin_value (boxscore (away_entry sp home_box away_box g hs as))
          = box_get home_box ''turnovers'' 0 - box_get away_box ''turnovers'' 0"
proof -
  have a: "\<forall>b \<in> set boxes.
            tov_margin_value b = box_get b ''opp_turnovers'' 0 - box_get b ''turnovers'' 0"
    using assms(2) by (simp add: tov_margin_value_eq)
  then have m: "map (\<lambda>b. of_int (tov_margin_value b) :: real) boxes
      = map (\<lambda>b. of_int (box_get b ''opp_turnovers'' 0 - box_get b ''turnovers'' 0)) boxes"
    by simp
  have b: "boxes \<noteq> [] \<longrightarrow>
          dict_get (compute_football_stats boxes l10) ''tov_margin_10'' 0
            = ewma (map (\<lambda>b. of_int (box_get b ''opp_turnovers'' 0 - box_get b ''turnovers'' 0))
                 boxes)"
    using football_tov_margin [of boxes l10] by (simp only: m) simp
  let ?hb = "AList.update ''opp_turnovers'' (box_get away_box ''turnovers'' 0) home_box"
  let ?ab = "AList.update ''opp_turnovers'' (box_get home_box ''turnovers'' 0) away_box"
  have hb: "boxscore (home_entry sp home_box away_box g hs as) = ?hb"
    using assms(1) by (auto simp: home_entry_def)
  have ab: "boxscore (away_entry sp home_box away_box g hs as) = ?ab"
    using assms(1) by (auto simp: away_entry_def)
  have c: "tov_margin_value ?hb = box_get away_box ''turnovers'' 0 - box_get home_box ''turnovers'' 0"
    using assms(4) by (simp add: tov_margin_value_eq box_get_update_same box_get_update_other)
  have d: "tov_margin_value ?ab = box_get home_box ''turnovers'' 0 - box_get away_box ''turnovers'' 0"
    using assms(3) by (simp add: tov_margin_value_eq box_get_update_same box_get_update_other)
  from a b c d show ?thesis by (simp only: hb ab simp_thms)
qed

text \<open>
  Claim C10 at a boxscore with two turnovers and no opponent turnover (the fallback
  branch), at one with three opponent turnovers, and at the entries of an NFL game.
\<close>

theorem turnover_margin_is_plain_difference_witness:
  "(''NFL'' = ''NFL'' \<or> ''NFL'' = ''NCAAF'')
   \<and> 0 \<le> box_get [(''turnovers'', 2), (''opp_turnovers'', 0)] ''opp_turnovers'' 0
   \<and> 0 \<le> box_get [(''opp_turnovers'', 3)] ''opp_turnovers'' 0
   \<and> tov_margin_value [(''turnovers'', 2), (''opp_turnovers'', 0)] = 0 - 2
   \<and> tov_margin_value [(''opp_turnovers'', 3)] = 3 - 0
   \<and> tov_margin_value (boxscore (home_entry ''NFL'' [(''turnovers'', 2)] [] game_a 21 14)) = 0 - 2
   \<and> tov_margin_value (boxscore (away_entry ''NFL'' [(''turnovers'', 2)] [] game_a 21 14)) = 2 - 0"
proof -
  let ?boxes = "[[(''turnovers'', 2), (''opp_turnovers'', 0)], [(''opp_turnovers'', 3)]] :: box list"
  have h1: "''NFL'' = ''NFL'' \<or> ''NFL'' = ''NCAAF''" by simp
  have h2: "\<forall>b \<in> set ?boxes. 0 \<le> box_get b ''opp_turnovers'' 0"
    by (simp add: box_get_def)
  have h3: "0 \<le> box_get [(''turnovers'', 2)] ''turnovers'' 0" by (simp add: box_get_def)
  have h4: "0 \<le> box_get [] ''turnovers'' 0" by (simp add: box_get_def)
  note t = turnover_margin_is_plain_difference [OF h1 h2 h3 h4, of "[]" game_a 21 14]
  from t have "\<forall>b \<in> set ?boxes.
      tov_margin_value b = box_get b ''opp_turnovers'' 0 - box_get b ''turnovers'' 0" by blast
  then have 1: "tov_margin_value [(''turnovers'', 2), (''opp_turnovers'', 0)] = 0 - 2"
    and 2: "tov_margin_value [(''opp_turnovers'', 3)] = 3 - 0"
    by (simp_all add: box_get_def)
  from t have 3: "tov_margin_value (boxscore (home_entry ''NFL'' [(''turnovers'', 2)] [] game_a 21 14)) = 0 - 2"
    by (simp add: box_get_def)
  from t have 4: "tov_margin_value (boxscore (away_entry ''NFL'' [(''turnovers'', 2)] [] game_a 21 14)) = 2 - 0"
    by (simp add: box_get_def)
  have h5: "0 \<le> box_get [(''turnovers'', 2), (''opp_turnovers'', 0)] ''opp_turnovers'' 0"
    and h6: "0 \<le> box_get [(''opp_turnovers'', 3)] ''opp_turnovers'' 0"
    using h2 by simp_all
  from h1 h5 h6 1 2 3 4 show ?thesis by blast
qed

section \<open>Predicted scores\<close>

lemma py_round_of_int: "py_round (of_int k) = k"
  by (simp add: py_round_def Let_def)

lemma clamped_prob_range: "0.01 \<le> clamped_prob p \<and> clamped_prob p \<le> 0.99"
  by (simp add: clamped_prob_def)

lemma clamped_prob_id: "0.01 \<le> p \<Longrightarrow> p \<le> 0.99 \<Longrightarrow> clamped_prob p = p"
  by (simp add: clamped_prob_def)

lemma rounded_scores_eq:
  "rounded_scores c p rh ra =
     (py_round (max ((total_estimate rh ra + spread_estimate c p) / 2) 0),
      py_round (max ((total_estimate rh ra - spread_estimate c p) / 2) 0))"
  by (simp add: rounded_scores_def Let_def)

lemma predict_scores_home:
  assumes "1 / 2 \<le> p" and "rounded_scores c p rh ra = (h0, a0)"
  shows "predicted_home_score (predict_scores c p rh ra) = (if h0 \<le> a0 then a0 + 1 else h0)"
    and "predicted_away_score (predict_scores c p rh ra) = a0"
  using assms by (simp_all add: predict_scores_def Let_def)

lemma predict_scores_away:
  assumes "p < 1 / 2" and "rounded_scores c p rh ra = (h0, a0)"
  shows "predicted_away_score (predict_scores c p rh ra) = (if a0 \<le> h0 then h0 + 1 else a0)"
    and "predicted_home_score (predict_scores c p rh ra) = h0"
  using assms by (simp_all add: predict_scores_def Let_def)

lemma predict_scores_spread_total:
  "predicted_spread (predict_scores c p rh ra)
     = of_int (predicted_home_score (predict_scores c p rh ra)
               - predicted_away_score (predict_scores c p rh ra))
   \<and> predicted_total (predict_scores c p rh ra)
     = of_int (predicted_home_score (predict_scores c p rh ra)
               + predicted_away_score (predict_scores c p rh ra))"
  by (simp add: predict_scores_def Let_def split: prod.splits)

text \<open>
  Claim C4. The total estimate is the sum of the two regressor outputs, each floored at
  0; the spread estimate is the calibration constant times the logit of the home win
  probability clamped to [0.01, 0.99] (a probability below 0.01 counts as 0.01, one
  above 0.99 as 0.99); the rounded scores are
  \<open>round(max((total + spread) / 2, 0))\<close> and \<open>round(max((total - spread) / 2, 0))\<close>;
  the favourite (home iff \<open>p \<ge> 0.5\<close>) keeps its rounded score when it leads and gets
  the other score plus one otherwise, the other score is unchanged, so the favourite's
  final score is strictly greater; the returned spread and total are the difference
  and the sum of the final scores.
\<close>

theorem predicted_scores_favor_the_favorite:
  "total_estimate rh ra = max rh 0 + max ra 0
   \<and> spread_estimate c p = c * ln (clamped_prob p / (1 - clamped_prob p))
   \<and> 0.01 \<le> clamped_prob p \<and> clamped_prob p \<le> 0.99
   \<and> (0.01 \<le> p \<and> p \<le> 0.99 \<longrightarrow> clamped_prob p = p)
   \<and> (p < 0.01 \<longrightarrow> clamped_prob p = 0.01)
   \<and> (0.99 < p \<longrightarrow> clamped_prob p = 0.99)
   \<and> rounded_scores c p rh ra =
       (py_round (max ((total_estimate rh ra + spread_estimate c p) / 2) 0),
        py_round (max ((total_estimate rh ra - spread_estimate c p) / 2) 0))
   \<and> (0.5 \<le> p \<longrightarrow>
        predicted_away_score (predict_scores c p rh ra) = snd (rounded_scores c p rh ra)
      \<and> predicted_home_score (predict_scores c p rh ra) =
          (if fst (rounded_scores c p rh ra) \<le> snd (rounded_scores c p rh ra)
           then snd (rounded_scores c p rh ra) + 1 else fst (rounded_scores c p rh ra))
      \<and> predicted_away_score (predict_scores c p rh ra)
          < predicted_home_score (predict_scores c p rh ra))
   \<and> (p < 0.5 \<longrightarrow>
        predicted_home_score (predict_scores c p rh ra) = fst (rounded_scores c p rh ra)
      \<and> predicted_away_score (predict_scores c p rh ra) =
          (if snd (rounded_scores c p rh ra) \<le> fst (rounded_scores c p rh ra)
           then fst (rounded_scores c p rh ra) + 1 else snd (rounded_scores c p rh ra))
      \<and> predicted_home_score (predict_scores c p rh ra)
          < predicted_away_score (predict_scores c p rh ra))
   \<and> predicted_spread (predict_scores c p rh ra)
        = of_int (predicted_home_score (predict_scores c p rh ra)
                  - predicted_away_score (predict_scores c p rh ra))
   \<and> predicted_total (predict_scores c p rh ra)
        = of_int (predicted_home_score (predict_scores c p rh ra)
                  + predicted_away_score (predict_scores c p rh ra))"
proof -
  obtain h0 a0 where r: "rounded_scores c p rh ra = (h0, a0)"
    by (cases "rounded_scores c p rh ra") auto
  have a: "total_estimate rh ra = max rh 0 + max ra 0" by (simp add: total_estimate_def)
  have b: "spread_estimate c p = c * ln (clamped_prob p / (1 - clamped_prob p))"
    by (simp add: spread_estimate_def)
  have d: "0.01 \<le> p \<and> p \<le> 0.99 \<longrightarrow> clamped_prob p = p" by (simp add: clamped_prob_id)
  have d1: "p < 0.01 \<longrightarrow> clamped_prob p = 0.01" by (simp add: clamped_prob_def)
  have d2: "0.99 < p \<longrightarrow> clamped_prob p = 0.99" by (simp add: clamped_prob_def)
  have e: "0.5 \<le> p \<longrightarrow>
        predicted_away_score (predict_scores c p rh ra) = snd (rounded_scores c p rh ra)
      \<and> predicted_home_score (predict_scores c p rh ra) =
          (if fst (rounded_scores c p rh ra) \<le> snd (rounded_scores c p rh ra)
           then snd (rounded_scores c p rh ra) + 1 else fst (rounded_scores c p rh ra))
      \<and> predicted_away_score (predict_scores c p rh ra)
          < predicted_home_score (predict_scores c p rh ra)"
  proof
    assume "0.5 \<le> p"
    then have p: "1 / 2 \<le> p" by simp
    show "predicted_away_score (predict_scores c p rh ra) = snd (rounded_scores c p rh ra)
      \<and> predicted_home_score (predict_scores c p rh ra) =
          (if fst (rounded_scores c p rh ra) \<le> snd (rounded_scores c p rh ra)
           then snd (rounded_scores c p rh ra) + 1 else fst (rounded_scores c p rh ra))
      \<and> predicted_away_score (predict_scores c p rh ra)
          < predicted_home_score (predict_scores c p rh ra)"
      unfolding predict_scores_home [OF p r] r fst_conv snd_conv by simp
  qed
  have f: "p < 0.5 \<longrightarrow>
        predicted_home_score (predict_scores c p rh ra) = fst (rounded_scores c p rh ra)
      \<and> predicted_away_score (predict_scores c p rh ra) =
          (if snd (rounded_scores c p rh ra) \<le> fst (rounded_scores c p rh ra)
           then fst (rounded_scores c p rh ra) + 1 else snd (rounded_scores c p rh ra))
      \<and> predicted_home_score (predict_scores c p rh ra)
          < predicted_away_score (predict_scores c p rh ra)"
  proof
    assume "p < 0.5"
    then have p: "p < 1 / 2" by simp
    show "predicted_home_score (predict_scores c p rh ra) = fst (rounded_scores c p rh ra)
      \<and> predicted_away_score (predict_scores c p rh ra) =
          (if snd (rounded_scores c p rh ra) \<le> fst (rounded_scores c p rh ra)
           then fst (rounded_scores c p rh ra) + 1 else snd (rounded_scores c p rh ra))
      \<and> predicted_home_score (predict_scores c p rh ra)
          < predicted_away_score (predict_scores c p rh ra)"
      unfolding predict_scores_away [OF p r] r fst_conv snd_conv by simp
  qed
  from a b clamped_prob_range [of p] d d1 d2 rounded_scores_eq [of c p rh ra] e f
    predict_scores_spread_total [of c p rh ra]
  show ?thesis by blast
qed

lemma rounded_scores_even:
  "rounded_scores 12 0.5 100 100 = (100, 100)"
proof -
  have "spread_estimate 12 0.5 = 0" by (simp add: spread_estimate_def clamped_prob_def)
  moreover have "total_estimate 100 100 = 200" by (simp add: total_estimate_def)
  ultimately show ?thesis
    using py_round_of_int [of 100] by (simp add: rounded_scores_eq)
qed

text \<open>
  Claim C4 at an even game: probability 0.5 and two estimates of 100 round to a
  100--100 tie, which becomes 101--100 for the home team, spread 1 and total 201; a
  probability of 1 is clamped to 0.99 and one of -1 to 0.01.
\<close>

theorem predicted_scores_favor_the_favorite_witness:
  "(0.5::real) \<le> 0.5 \<and> (0.01::real) \<le> 0.5 \<and> (0.5::real) \<le> 0.99
   \<and> clamped_prob 0.5 = 0.5
   \<and> predicted_home_score (predict_scores 12 0.5 100 100) = 101
   \<and> predicted_away_score (predict_scores 12 0.5 100 100) = 100
   \<and> predicted_spread (predict_scores 12 0.5 100 100) = 1
   \<and> predicted_total (predict_scores 12 0.5 100 100) = 201
   \<and> (0.99::real) < 1 \<and> clamped_prob 1 = 0.99
   \<and> (- 1::real) < 0.01 \<and> clamped_prob (- 1) = 0.01"
proof -
  note t = predicted_scores_favor_the_favorite [of 100 100 12 "0.5"]
  have q: "(0.99::real) < 1" "(- 1::real) < 0.01" by simp_all
  from predicted_scores_favor_the_favorite [of 100 100 12 1] q(1)
  have hi: "clamped_prob 1 = 0.99" by blast
  from predicted_scores_favor_the_favorite [of 100 100 12 "- 1"] q(2)
  have lo: "clamped_prob (- 1) = 0.01" by blast
  have p: "(0.5::real) \<le> 0.5" "(0.01::real) \<le> 0.5 \<and> (0.5::real) \<le> 0.99" by simp_all
  from t p(2) have 0: "clamped_prob 0.5 = 0.5" by blast
  from t p(1) have 1: "predicted_away_score (predict_scores 12 0.5 100 100)
       = snd (rounded_scores 12 0.5 100 100)"
    and 2: "predicted_home_score (predict_scores 12 0.5 100 100) =
          (if fst (rounded_scores 12 0.5 100 100) \<le> snd (rounded_scores 12 0.5 100 100)
           then snd (rounded_scores 12 0.5 100 100) + 1 else fst (rounded_scores 12 0.5 100 100))"
    by blast+
  from 1 have a: "predicted_away_score (predict_scores 12 0.5 100 100) = 100"
    by (simp only: rounded_scores_even snd_conv)
  from 2 have h: "predicted_home_score (predict_scores 12 0.5 100 100) = 101"
    by (simp only: rounded_scores_even fst_conv snd_conv) simp
  from t have sp: "predicted_spread (predict_scores 12 0.5 100 100)
        = of_int (predicted_home_score (predict_scores 12 0.5 100 100)
                  - predicted_away_score (predict_scores 12 0.5 100 100))"
    and to: "predicted_total (predict_scores 12 0.5 100 100)
        = of_int (predicted_home_score (predict_scores 12 0.5 100 100)
                  + predicted_away_score (predict_scores 12 0.5 100 100))"
    by blast+
  have s: "predicted_spread (predict_scores 12 0.5 100 100) = 1"
    unfolding sp a h by simp
  have tt: "predicted_total (predict_scores 12 0.5 100 100) = 201"
    unfolding to a h by simp
  from p 0 h a s tt q hi lo show ?thesis by blast
qed

section \<open>Period allocation\<close>












lemma sum_list_of_int: "(of_int (sum_list xs) :: real) = sum_list (map of_int xs)"
  by (induction xs) simp_all




























section \<open>Feature assembly\<close>

lemma sort_key_head_min:
  "sort_key f xs = r # rest \<Longrightarrow> r \<in> set xs \<and> (\<forall>x \<in> set xs. f r \<le> f x)"
proof -
  assume a: "sort_key f xs = r # rest"
  have "set (sort_key f xs) = set xs" by simp
  with a have s: "set xs = insert r (set rest)" by simp
  have "sorted (map f (sort_key f xs))" by simp
  with a have "\<forall>x \<in> set rest. f r \<le> f x" by simp
  with s show ?thesis by auto
qed

lemma get_rolling_stats_row:
  assumes "get_rolling_stats rows tid before_date (Some gid) = Some r"
  shows "r \<in> set rows \<and> rs_team_id r = tid
       \<and> (rs_game_id r = gid
          \<or> ((\<forall>r' \<in> set rows. \<not> (rs_team_id r' = tid \<and> rs_game_id r' = gid))
             \<and> rs_as_of_date r < before_date
             \<and> (\<forall>r' \<in> set rows. rs_team_id r' = tid \<and> rs_as_of_date r' < before_date
                   \<longrightarrow> rs_as_of_date r' \<le> rs_as_of_date r)))"
proof (cases "filter (\<lambda>r. rs_team_id r = tid \<and> rs_game_id r = gid) rows")
  case (Cons x xs)
  with assms have "r = x" by (simp add: get_rolling_stats_def Let_def)
  moreover have "x \<in> set (filter (\<lambda>r. rs_team_id r = tid \<and> rs_game_id r = gid) rows)"
    by (simp only: Cons) simp
  ultimately show ?thesis by simp
next
  case Nil
  let ?c = "filter (\<lambda>r. rs_team_id r = tid \<and> rs_as_of_date r < before_date) rows"
  from Nil assms obtain rest where s: "sort_key (\<lambda>r. - rs_as_of_date r) ?c = r # rest"
    by (auto simp: get_rolling_stats_def Let_def split: list.splits)
  from sort_key_head_min [OF s]
  have m: "r \<in> set ?c" and mx: "\<forall>x \<in> set ?c. - rs_as_of_date r \<le> - rs_as_of_date x" by blast+
  from Nil have no: "\<forall>r' \<in> set rows. \<not> (rs_team_id r' = tid \<and> rs_game_id r' = gid)"
    by (simp add: filter_empty_conv)
  from m mx no show ?thesis by auto
qed

lemma rolling_some:
  assumes "compute_features_from_rolling_stats ss d g = Some f"
  shows "\<exists>hr ar.
      get_rolling_stats (db_rolling d) (home_team_id g) (game_date g) (Some (game_id g)) = Some hr
    \<and> get_rolling_stats (db_rolling d) (away_team_id g) (game_date g) (Some (game_id g)) = Some ar
    \<and> 3 \<le> rs_games_played hr \<and> 3 \<le> rs_games_played ar
    \<and> map_of f ''rest_days_home''
         = Some (calc_rest_days_from_dates (game_date g) (Some (rs_as_of_date hr)))
    \<and> map_of f ''rest_days_away''
         = Some (calc_rest_days_from_dates (game_date g) (Some (rs_as_of_date ar)))"
  using assms
  by (auto simp: compute_features_from_rolling_stats_def Let_def
      split: option.splits if_splits)

lemma rolling_none_home:
  "get_rolling_stats (db_rolling d) (home_team_id g) (game_date g) (Some (game_id g)) = Some hr
   \<Longrightarrow> rs_games_played hr < 3 \<Longrightarrow> compute_features_from_rolling_stats ss d g = None"
  by (simp add: compute_features_from_rolling_stats_def split: option.splits)

lemma rolling_none_away:
  "get_rolling_stats (db_rolling d) (away_team_id g) (game_date g) (Some (game_id g)) = Some ar
   \<Longrightarrow> rs_games_played ar < 3 \<Longrightarrow> compute_features_from_rolling_stats ss d g = None"
  by (simp add: compute_features_from_rolling_stats_def split: option.splits)

lemma rolling_none_missing:
  "get_rolling_stats (db_rolling d) (home_team_id g) (game_date g) (Some (game_id g)) = None
   \<or> get_rolling_stats (db_rolling d) (away_team_id g) (game_date g) (Some (game_id g)) = None
   \<Longrightarrow> compute_features_from_rolling_stats ss d g = None"
  by (auto simp: compute_features_from_rolling_stats_def split: option.splits)

lemma features_fallback:
  "compute_features_from_rolling_stats ss d g = None \<Longrightarrow>
     compute_features dp ss d g = compute_features_legacy dp ss d g"
  by (simp add: compute_features_def split: option.splits list.splits)

lemma features_origin:
  "compute_features dp ss d g = Inr (Some f) \<Longrightarrow>
     compute_features_from_rolling_stats ss d g = Some f
     \<or> compute_features_legacy dp ss d g = Inr (Some f)"
  by (auto simp: compute_features_def split: option.splits list.splits)

lemma length_last_n_games:
  "length (get_team_last_n_games gs tid n before_date) =
     min n (length (filter (\<lambda>g. (home_team_id g = tid \<or> away_team_id g = tid)
                     \<and> status g = ''Final'' \<and> game_date g < before_date) gs))"
  by (simp add: get_team_last_n_games_def min.commute)

lemma legacy_none:
  assumes "length (filter (\<lambda>x. (home_team_id x = home_team_id g \<or> away_team_id x = home_team_id g)
                     \<and> status x = ''Final'' \<and> game_date x < game_date g) (db_games d)) < 3
         \<or> length (filter (\<lambda>x. (home_team_id x = away_team_id g \<or> away_team_id x = away_team_id g)
                     \<and> status x = ''Final'' \<and> game_date x < game_date g) (db_games d)) < 3"
  shows "compute_features_legacy dp ss d g = Inr None"
proof -
  from assms have "length (get_team_last_n_games (db_games d) (home_team_id g) 10 (game_date g)) < 3
     \<or> length (get_team_last_n_games (db_games d) (away_team_id g) 10 (game_date g)) < 3"
    unfolding length_last_n_games by auto
  then show ?thesis
    by (auto simp: compute_features_legacy_def Let_def split: option.splits)
qed

lemma get_home_example:
  "get_rolling_stats (db_rolling db_example) (home_team_id game_g) (game_date game_g)
     (Some (game_id game_g)) = Some row_h"
  by (simp add: get_rolling_stats_def db_example_def game_g_def row_h_def row_a_def)

lemma get_away_example:
  "get_rolling_stats (db_rolling db_example) (away_team_id game_g) (game_date game_g)
     (Some (game_id game_g)) = Some row_a"
  by (simp add: get_rolling_stats_def db_example_def game_g_def row_h_def row_a_def)

lemma last_10_home_example:
  "get_team_last_n_games (db_games db_example) (home_team_id game_g) 10 (game_date game_g)
     = [game_p3, game_p2, game_p1]"
  by (simp add: get_team_last_n_games_def db_example_def game_g_def game_p1_def game_p2_def game_p3_def)

lemma last_10_away_example:
  "get_team_last_n_games (db_games db_example) (away_team_id game_g) 10 (game_date game_g)
     = [game_p3, game_p2, game_p1]"
  by (simp add: get_team_last_n_games_def db_example_def game_g_def game_p1_def game_p2_def game_p3_def)

lemma rolling_is_some:
  assumes "get_rolling_stats (db_rolling d) (home_team_id g) (game_date g) (Some (game_id g)) = Some hr"
    and "get_rolling_stats (db_rolling d) (away_team_id g) (game_date g) (Some (game_id g)) = Some ar"
    and "3 \<le> rs_games_played hr" and "3 \<le> rs_games_played ar"
  shows "\<exists>f. compute_features_from_rolling_stats ss d g = Some f"
  using assms by (simp add: compute_features_from_rolling_stats_def Let_def)

lemma features_from_rolling:
  "ss = Some (c # cs) \<Longrightarrow> compute_features_from_rolling_stats ss d g = Some f \<Longrightarrow>
     compute_features dp ss d g = Inr (Some f)"
  by (simp add: compute_features_def)

lemma legacy_rest_days:
  assumes "compute_features_legacy dp ss d g = Inr (Some f)"
  shows "map_of f ''rest_days_home''
           = Some (calc_rest_days (game_date g)
               (get_team_last_n_games (db_games d) (home_team_id g) 10 (game_date g)))
       \<and> map_of f ''rest_days_away''
           = Some (calc_rest_days (game_date g)
               (get_team_last_n_games (db_games d) (away_team_id g) 10 (game_date g)))"
  using assms
  by (auto simp: compute_features_legacy_def Let_def split: option.splits if_splits list.splits)

lemma legacy_is_some:
  assumes "get_team (db_teams d) (home_team_id g) = Some ht"
    and "get_team (db_teams d) (away_team_id g) = Some awt"
    and "3 \<le> length (get_team_last_n_games (db_games d) (home_team_id g) 10 (game_date g))"
    and "3 \<le> length (get_team_last_n_games (db_games d) (away_team_id g) 10 (game_date g))"
    and "dp (sport g) = Some ppg"
  shows "\<exists>f. compute_features_legacy dp ss d g = Inr (Some f)"
  using assms
  by (auto simp: compute_features_legacy_def Let_def split: option.splits list.splits)

text \<open>
  Claim C5 at a failing input. Teams 1 and 2 last played eight days after the epoch and
  meet again on day ten; both have a snapshot row at that game. The rolling-stats path
  takes the row's \<open>as_of_date\<close>, which is the date of the game itself, as the date of
  the previous game and returns 0 rest days for both teams, where the legacy path
  returns the 2 days since the previous game.
\<close>

theorem rest_days_rolling_path_failing_input:
  "(case compute_features example_default_ppg (Some ''NBA'') db_example game_g of
      Inr (Some f) \<Rightarrow> map_of f ''rest_days_home'' = Some 0 \<and> map_of f ''rest_days_away'' = Some 0
    | _ \<Rightarrow> False)
   \<and> get_team_last_n_games (db_games db_example) (home_team_id game_g) 10 (game_date game_g)
       = [game_p3, game_p2, game_p1]
   \<and> delta_days (game_date game_g) (game_date game_p3) = 2
   \<and> (case compute_features_legacy example_default_ppg (Some ''NBA'') db_example game_g of
        Inr (Some f) \<Rightarrow> map_of f ''rest_days_home'' = Some 2 \<and> map_of f ''rest_days_away'' = Some 2
      | _ \<Rightarrow> False)"
proof -
  have gp: "3 \<le> rs_games_played row_h" "3 \<le> rs_games_played row_a"
    by (simp_all add: row_h_def row_a_def)
  from rolling_is_some [OF get_home_example get_away_example gp]
  obtain f where f: "compute_features_from_rolling_stats (Some ''NBA'') db_example game_g = Some f"
    by blast
  from rolling_some [OF f]
  have "map_of f ''rest_days_home''
          = Some (calc_rest_days_from_dates (game_date game_g) (Some (rs_as_of_date row_h)))"
    and "map_of f ''rest_days_away''
          = Some (calc_rest_days_from_dates (game_date game_g) (Some (rs_as_of_date row_a)))"
    by (simp_all add: get_home_example get_away_example)
  then have r: "map_of f ''rest_days_home'' = Some 0 \<and> map_of f ''rest_days_away'' = Some 0"
    by (simp add: calc_rest_days_from_dates_def delta_days_def game_g_def row_h_def row_a_def)
  have cf: "compute_features example_default_ppg (Some ''NBA'') db_example game_g = Inr (Some f)"
    by (rule features_from_rolling [OF _ f]) simp
  have 1: "case compute_features example_default_ppg (Some ''NBA'') db_example game_g of
      Inr (Some f) \<Rightarrow> map_of f ''rest_days_home'' = Some 0 \<and> map_of f ''rest_days_away'' = Some 0
    | _ \<Rightarrow> False"
    using r by (simp add: cf)
  have 3: "delta_days (game_date game_g) (game_date game_p3) = 2"
    by (simp add: delta_days_def game_g_def game_p3_def)
  have "\<exists>f. compute_features_legacy example_default_ppg (Some ''NBA'') db_example game_g
      = Inr (Some f)"
  proof (rule legacy_is_some)
    show "get_team (db_teams db_example) (home_team_id game_g) = Some \<lparr>team_id = 1, current_elo = 1510\<rparr>"
      by (simp add: get_team_def db_example_def game_g_def)
    show "get_team (db_teams db_example) (away_team_id game_g) = Some \<lparr>team_id = 2, current_elo = 1490\<rparr>"
      by (simp add: get_team_def db_example_def game_g_def)
    show "3 \<le> length (get_team_last_n_games (db_games db_example) (home_team_id game_g) 10
        (game_date game_g))"
      by (simp add: last_10_home_example)
    show "3 \<le> length (get_team_last_n_games (db_games db_example) (away_team_id game_g) 10
        (game_date game_g))"
      by (simp add: last_10_away_example)
    show "example_default_ppg (sport game_g) = Some 100"
      by (simp add: example_default_ppg_def game_g_def)
  qed
  then obtain f' where f': "compute_features_legacy example_default_ppg (Some ''NBA'') db_example
      game_g = Inr (Some f')" by blast
  from legacy_rest_days [OF f', unfolded last_10_home_example last_10_away_example]
  have "map_of f' ''rest_days_home'' = Some 2 \<and> map_of f' ''rest_days_away'' = Some 2"
    by (simp add: calc_rest_days_def delta_days_def game_g_def game_p3_def)
  then have 4: "case compute_features_legacy example_default_ppg (Some ''NBA'') db_example game_g of
        Inr (Some f) \<Rightarrow> map_of f ''rest_days_home'' = Some 2 \<and> map_of f ''rest_days_away'' = Some 2
      | _ \<Rightarrow> False"
    by (simp add: f')
  from 1 last_10_home_example 3 4 show ?thesis by blast
qed

text \<open>
  Claim C8. The rolling-stats path returns a feature dict only when both teams'
  resolved snapshots have \<open>games_played \<ge> 3\<close>; a feature dict returned by
  \<open>compute_features\<close> comes from that path or from the legacy path; when either
  resolved snapshot has fewer than 3 games the rolling-stats path yields nothing and
  \<open>compute_features\<close> is the legacy path; the legacy path returns \<open>None\<close> when either
  team has fewer than 3 completed prior games.
\<close>

theorem snapshot_features_need_three_games:
  "(compute_features_from_rolling_stats ss d g = Some f \<longrightarrow>
      (\<exists>hr ar.
          get_rolling_stats (db_rolling d) (home_team_id g) (game_date g) (Some (game_id g)) = Some hr
        \<and> get_rolling_stats (db_rolling d) (away_team_id g) (game_date g) (Some (game_id g)) = Some ar
        \<and> resolved_snapshot (db_rolling d) (home_team_id g) (game_date g) (game_id g) hr
        \<and> resolved_snapshot (db_rolling d) (away_team_id g) (game_date g) (game_id g) ar
        \<and> 3 \<le> rs_games_played hr \<and> 3 \<le> rs_games_played ar))
   \<and> (compute_features dp ss d g = Inr (Some f) \<longrightarrow>
        compute_features_from_rolling_stats ss d g = Some f
        \<or> compute_features_legacy dp ss d g = Inr (Some f))
   \<and> ((get_rolling_stats (db_rolling d) (home_team_id g) (game_date g) (Some (game_id g)) = Some hr
        \<and> rs_games_played hr < 3)
       \<or> (get_rolling_stats (db_rolling d) (away_team_id g) (game_date g) (Some (game_id g)) = Some ar
        \<and> rs_games_played ar < 3)
       \<longrightarrow> compute_features_from_rolling_stats ss d g = None
         \<and> compute_features dp ss d g = compute_features_legacy dp ss d g)
   \<and> (length (prior_final_games (db_games d) (home_team_id g) (game_date g)) < 3
       \<or> length (prior_final_games (db_games d) (away_team_id g) (game_date g)) < 3
       \<longrightarrow> compute_features_legacy dp ss d g = Inr None)"
proof -
  have a: "compute_features_from_rolling_stats ss d g = Some f \<longrightarrow>
      (\<exists>hr ar.
          get_rolling_stats (db_rolling d) (home_team_id g) (game_date g) (Some (game_id g)) = Some hr
        \<and> get_rolling_stats (db_rolling d) (away_team_id g) (game_date g) (Some (game_id g)) = Some ar
        \<and> resolved_snapshot (db_rolling d) (home_team_id g) (game_date g) (game_id g) hr
        \<and> resolved_snapshot (db_rolling d) (away_team_id g) (game_date g) (game_id g) ar
        \<and> 3 \<le> rs_games_played hr \<and> 3 \<le> rs_games_played ar)"
  proof
    assume "compute_features_from_rolling_stats ss d g = Some f"
    from rolling_some [OF this] obtain hr ar where
      h: "get_rolling_stats (db_rolling d) (home_team_id g) (game_date g) (Some (game_id g)) = Some hr"
      and a: "get_rolling_stats (db_rolling d) (away_team_id g) (game_date g) (Some (game_id g)) = Some ar"
      and n: "3 \<le> rs_games_played hr" "3 \<le> rs_games_played ar"
      by blast
    have "resolved_snapshot (db_rolling d) (home_team_id g) (game_date g) (game_id g) hr"
      unfolding resolved_snapshot_def by (rule get_rolling_stats_row [OF h])
    moreover have "resolved_snapshot (db_rolling d) (away_team_id g) (game_date g) (game_id g) ar"
      unfolding resolved_snapshot_def by (rule get_rolling_stats_row [OF a])
    ultimately show "\<exists>hr ar.
          get_rolling_stats (db_rolling d) (home_team_id g) (game_date g) (Some (game_id g)) = Some hr
        \<and> get_rolling_stats (db_rolling d) (away_team_id g) (game_date g) (Some (game_id g)) = Some ar
        \<and> resolved_snapshot (db_rolling d) (home_team_id g) (game_date g) (game_id g) hr
        \<and> resolved_snapshot (db_rolling d) (away_team_id g) (game_date g) (game_id g) ar
        \<and> 3 \<le> rs_games_played hr \<and> 3 \<le> rs_games_played ar"
      using h a n by blast
  qed
  have b: "compute_features dp ss d g = Inr (Some f) \<longrightarrow>
        compute_features_from_rolling_stats ss d g = Some f
        \<or> compute_features_legacy dp ss d g = Inr (Some f)"
    using features_origin by blast
  have c: "(get_rolling_stats (db_rolling d) (home_team_id g) (game_date g) (Some (game_id g)) = Some hr
        \<and> rs_games_played hr < 3)
       \<or> (get_rolling_stats (db_rolling d) (away_team_id g) (game_date g) (Some (game_id g)) = Some ar
        \<and> rs_games_played ar < 3)
       \<longrightarrow> compute_features_from_rolling_stats ss d g = None
         \<and> compute_features dp ss d g = compute_features_legacy dp ss d g"
    using rolling_none_home rolling_none_away features_fallback by blast
  have e: "length (prior_final_games (db_games d) (home_team_id g) (game_date g)) < 3
       \<or> length (prior_final_games (db_games d) (away_team_id g) (game_date g)) < 3
       \<longrightarrow> compute_features_legacy dp ss d g = Inr None"
    unfolding prior_final_games_def using legacy_none by blast
  from a b c e show ?thesis by blast
qed

lemma get_home_short:
  "get_rolling_stats (db_rolling db_short) (home_team_id game_g) (game_date game_g)
     (Some (game_id game_g)) = Some row_h2"
  by (simp add: get_rolling_stats_def db_short_def game_g_def row_h2_def row_a_def)

text \<open>
  Claim C8 at \<open>db_short\<close>, where the home team's row has two games played and one
  prior game exists (the result is \<open>None\<close>), and at \<open>db_example\<close>, where both rows
  have three games played and the rolling-stats path returns features.
\<close>

theorem snapshot_features_need_three_games_witness:
  "get_rolling_stats (db_rolling db_short) (home_team_id game_g) (game_date game_g)
       (Some (game_id game_g)) = Some row_h2
   \<and> rs_games_played row_h2 < 3
   \<and> length (prior_final_games (db_games db_short) (home_team_id game_g) (game_date game_g)) < 3
   \<and> compute_features_from_rolling_stats (Some ''NBA'') db_short game_g = None
   \<and> compute_features example_default_ppg (Some ''NBA'') db_short game_g = Inr None
   \<and> (\<exists>f. compute_features_from_rolling_stats (Some ''NBA'') db_example game_g = Some f)
   \<and> resolved_snapshot (db_rolling db_example) (home_team_id game_g) (game_date game_g)
       (game_id game_g) row_h
   \<and> 3 \<le> rs_games_played row_h \<and> 3 \<le> rs_games_played row_a"
proof -
  note t = snapshot_features_need_three_games [of "Some ''NBA''" db_short game_g _
      example_default_ppg row_h2 row_a]
  have 2: "rs_games_played row_h2 < 3" by (simp add: row_h2_def)
  have 3: "length (prior_final_games (db_games db_short) (home_team_id game_g) (game_date game_g)) < 3"
    by (simp add: prior_final_games_def db_short_def game_g_def game_p1_def)
  from t get_home_short 2
  have 4: "compute_features_from_rolling_stats (Some ''NBA'') db_short game_g = None"
    and 5: "compute_features example_default_ppg (Some ''NBA'') db_short game_g
      = compute_features_legacy example_default_ppg (Some ''NBA'') db_short game_g"
    by blast+
  from t 3 have "compute_features_legacy example_default_ppg (Some ''NBA'') db_short game_g = Inr None"
    by blast
  with 5 have 6: "compute_features example_default_ppg (Some ''NBA'') db_short game_g = Inr None"
    by simp
  have gp: "3 \<le> rs_games_played row_h" "3 \<le> rs_games_played row_a"
    by (simp_all add: row_h_def row_a_def)
  from rolling_is_some [OF get_home_example get_away_example gp]
  obtain f where f: "compute_features_from_rolling_stats (Some ''NBA'') db_example game_g = Some f"
    by blast
  from snapshot_features_need_three_games [of "Some ''NBA''" db_example game_g f
      example_default_ppg row_h row_a] f
  obtain hr ar where
    "get_rolling_stats (db_rolling db_example) (home_team_id game_g) (game_date game_g)
       (Some (game_id game_g)) = Some hr"
    "resolved_snapshot (db_rolling db_example) (home_team_id game_g) (game_date game_g)
       (game_id game_g) hr"
    by blast
  then have 7: "resolved_snapshot (db_rolling db_example) (home_team_id game_g) (game_date game_g)
       (game_id game_g) row_h"
    by (simp add: get_home_example)
  from get_home_short 2 3 4 6 f 7 gp show ?thesis by blast
qed

section \<open>Rolling averages\<close>

lemma ewma_loop_sums:
  "ewma_loop d w t ws vs =
     (t + w * (\<Sum>i<length vs. d ^ i * vs ! i), ws + w * (\<Sum>i<length vs. d ^ i))"
proof (induction vs arbitrary: w t ws)
  case Nil
  then show ?case by simp
next
  case (Cons v vs)
  have a: "(\<Sum>i<Suc (length vs). d ^ i * (v # vs) ! i) = v + d * (\<Sum>i<length vs. d ^ i * vs ! i)"
    by (subst sum.lessThan_Suc_shift) (simp add: sum_distrib_left mult.assoc)
  have b: "(\<Sum>i<Suc (length vs). d ^ i) = 1 + d * (\<Sum>i<length vs. d ^ i)"
    by (subst sum.lessThan_Suc_shift) (simp add: sum_distrib_left)
  show ?case
    unfolding ewma_loop.simps Cons.IH length_Cons a b by (simp add: algebra_simps)
qed

lemma weight_sum_pos: "vs \<noteq> [] \<Longrightarrow> 0 < (\<Sum>i<length vs. (0.95::real) ^ i)"
proof -
  assume "vs \<noteq> []"
  then have "0 < length vs" by simp
  then have "{..<length vs} \<noteq> {}" by auto
  then show ?thesis by (intro sum_pos) simp_all
qed

lemma rev_weighted_sum:
  "(\<Sum>i<length vs. d ^ i * rev vs ! i) = (\<Sum>i<length vs. d ^ i * vs ! (length vs - 1 - i))"
  by (rule sum.cong) (simp_all add: rev_nth)

lemma ewma_is_spec: "vs \<noteq> [] \<Longrightarrow> ewma vs = ewma_spec vs"
proof -
  assume ne: "vs \<noteq> []"
  have "ewma_loop EWMA_DECAY 1 0 0 (rev vs) =
      ((\<Sum>i<length vs. 0.95 ^ i * rev vs ! i), (\<Sum>i<length vs. 0.95 ^ i))"
    by (simp add: ewma_loop_sums EWMA_DECAY_def)
  then have "ewma vs = (\<Sum>i<length vs. 0.95 ^ i * rev vs ! i) / (\<Sum>i<length vs. 0.95 ^ i)"
    using ne weight_sum_pos [OF ne] by (simp add: ewma_def)
  then show ?thesis by (simp only: ewma_spec_def rev_weighted_sum)
qed

lemma last_n_nonempty: "xs \<noteq> [] \<Longrightarrow> 0 < n \<Longrightarrow> last_n n xs \<noteq> []"
  by (cases xs) (auto simp: last_n_def)

lemma ewma_map_spec:
  "history \<noteq> [] \<Longrightarrow> 0 < n \<Longrightarrow>
     ewma (map f (last_n n history)) = ewma_spec (map f (last_n n history))"
  by (rule ewma_is_spec) (simp add: last_n_nonempty)

text \<open>
  Claim C9, as the code stores the values. For a non-empty history, the seven decayed
  statistics are the exponentially weighted average of the specification (weight
  \<open>0.95 ^ i\<close> for the game \<open>i\<close> places before the most recent, normalised) of the
  last 10 or 20 values, rounded to six decimals; the two venue win rates are the plain
  fraction of wins among the home (away) games of the last 10, 0.5 when there are
  none, rounded to six decimals.
\<close>

theorem snapshot_averages:
  assumes "history \<noteq> []"
  shows "win_pct_10 (compute_stats_from_history fam history e sp ih)
           = py_round_nd (ewma_spec (map win_value (last_n 10 history))) 6
       \<and> win_pct_20 (compute_stats_from_history fam history e sp ih)
           = py_round_nd (ewma_spec (map win_value (last_n 20 history))) 6
       \<and> ppg_10 (compute_stats_from_history fam history e sp ih)
           = py_round_nd (ewma_spec (map (\<lambda>g. of_int (score_for g)) (last_n 10 history))) 6
       \<and> ppg_20 (compute_stats_from_history fam history e sp ih)
           = py_round_nd (ewma_spec (map (\<lambda>g. of_int (score_for g)) (last_n 20 history))) 6
       \<and> papg_10 (compute_stats_from_history fam history e sp ih)
           = py_round_nd (ewma_spec (map (\<lambda>g. of_int (score_against g)) (last_n 10 history))) 6
       \<and> papg_20 (compute_stats_from_history fam history e sp ih)
           = py_round_nd (ewma_spec (map (\<lambda>g. of_int (score_against g)) (last_n 20 history))) 6
       \<and> margin_avg_10 (compute_stats_from_history fam history e sp ih)
           = py_round_nd (ewma_spec (map (\<lambda>g. of_int (margin g)) (last_n 10 history))) 6
       \<and> home_win_pct_10 (compute_stats_from_history fam history e sp ih)
           = py_round_nd (win_fraction (filter is_home (last_n 10 history))) 6
       \<and> away_win_pct_10 (compute_stats_from_history fam history e sp ih)
           = py_round_nd (win_fraction (filter (\<lambda>g. \<not> is_home g) (last_n 10 history))) 6"
proof -
  have p: "(0::nat) < 10" "(0::nat) < 20" by simp_all
  show ?thesis
    using assms
    by (simp add: compute_stats_from_history_def Let_def win_fraction_def
        ewma_map_spec [OF assms p(1)] ewma_map_spec [OF assms p(2)])
qed

lemma history_lw_ne: "history_lw \<noteq> []"
  by (simp add: history_lw_def)

lemma last_10_lw: "last_n 10 history_lw = history_lw"
  by (simp add: last_n_def history_lw_def)

lemma wins_lw: "map win_value history_lw = [0, 1]"
  by (simp add: history_lw_def win_value_def home_entry_def)

lemma ewma_spec_01: "ewma_spec [0, 1] = 20 / 39"
  by (simp add: ewma_spec_def lessThan_Suc numeral_2_eq_2)

lemma round_20_39: "py_round_nd (20 / 39) 6 = 512821 / 1000000"
  by (simp add: py_round_nd_def py_round_def Let_def)

lemma home_fraction_lw: "win_fraction (filter is_home (last_n 10 history_lw)) = 1 / 2"
  unfolding last_10_lw by (simp add: history_lw_def win_fraction_def home_entry_def)

lemma round_half: "py_round_nd (1 / 2) 6 = 1 / 2"
  by (simp add: py_round_nd_def py_round_def Let_def)

text \<open>
  Claim C9 at a loss followed by a win, both at home: the decayed win rate is
  \<open>1 / 1.95\<close> rounded to 0.512821, the plain home win rate is 0.5.
\<close>

theorem snapshot_averages_witness:
  "history_lw \<noteq> []
   \<and> win_pct_10 (compute_stats_from_history (\<lambda>_ _ _. []) history_lw 1500 ''NBA'' True)
       = 512821 / 1000000
   \<and> home_win_pct_10 (compute_stats_from_history (\<lambda>_ _ _. []) history_lw 1500 ''NBA'' True)
       = 1 / 2"
proof -
  note t = snapshot_averages [OF history_lw_ne, of "\<lambda>_ _ _. []" 1500 "''NBA''" True]
  from t have "win_pct_10 (compute_stats_from_history (\<lambda>_ _ _. []) history_lw 1500 ''NBA'' True)
      = py_round_nd (ewma_spec (map win_value (last_n 10 history_lw))) 6" by blast
  then have 1: "win_pct_10 (compute_stats_from_history (\<lambda>_ _ _. []) history_lw 1500 ''NBA'' True)
      = 512821 / 1000000"
    by (simp only: last_10_lw wins_lw ewma_spec_01 round_20_39)
  from t have "home_win_pct_10 (compute_stats_from_history (\<lambda>_ _ _. []) history_lw 1500 ''NBA'' True)
      = py_round_nd (win_fraction (filter is_home (last_n 10 history_lw))) 6" by blast
  then have 2: "home_win_pct_10 (compute_stats_from_history (\<lambda>_ _ _. []) history_lw 1500 ''NBA'' True)
      = 1 / 2"
    by (simp only: home_fraction_lw round_half)
  from history_lw_ne 1 2 show ?thesis by blast
qed

lemma win_pct_lw:
  "win_pct_10 (compute_stats_from_history (\<lambda>_ _ _. []) history_lw 1500 ''NBA'' True)
     = py_round_nd (ewma (map win_value (last_n 10 history_lw))) 6"
  using history_lw_ne by (simp add: compute_stats_from_history_def Let_def)

text \<open>
  Claim C9 as stated fails: after a loss and a win the stored \<open>win_pct_10\<close> is
  0.512821, not the weighted average \<open>20 / 39\<close> itself.
\<close>

theorem snapshot_averages_counterexample:
  "win_pct_10 (compute_stats_from_history (\<lambda>_ _ _. []) history_lw 1500 ''NBA'' True)
     \<noteq> ewma_spec (map win_value (last_n 10 history_lw))
   \<and> ewma_spec (map win_value (last_n 10 history_lw)) = 20 / 39
   \<and> win_pct_10 (compute_stats_from_history (\<lambda>_ _ _. []) history_lw 1500 ''NBA'' True)
     = 512821 / 1000000"
proof -
  have e: "ewma (map win_value (last_n 10 history_lw)) = 20 / 39"
    unfolding last_10_lw wins_lw using ewma_is_spec [of "[0, 1]"] by (simp add: ewma_spec_01)
  have s: "ewma_spec (map win_value (last_n 10 history_lw)) = 20 / 39"
    unfolding last_10_lw wins_lw by (rule ewma_spec_01)
  have w: "win_pct_10 (compute_stats_from_history (\<lambda>_ _ _. []) history_lw 1500 ''NBA'' True)
     = 512821 / 1000000"
    unfolding win_pct_lw e by (rule round_20_39)
  have "(512821 / 1000000 :: real) \<noteq> 20 / 39" by simp
  with s w show ?thesis by simp
qed

end
